theory Spec2Isabelle
  imports Complex_Main
begin

section \<open>Python values, data frames and the object store\<close>

text \<open>
  The dashboard script \<^verbatim>\<open>spacex_dash_app.py\<close> keeps one pandas data frame in the
  module-level name \<^verbatim>\<open>spacex_df\<close> and registers two callbacks that read it.

  A Python number (an \<^verbatim>\<open>int\<close>, a \<^verbatim>\<open>bool\<close>, which is an \<^verbatim>\<open>int\<close> 0 or 1, or a
  \<^verbatim>\<open>float\<close>) is modelled by its exact value; the float \<^verbatim>\<open>nan\<close> is a number of its
  own, as it is an instance of \<^verbatim>\<open>float\<close>. A scalar is what a cell of the frame or the
  value of the dropdown can be: \<^verbatim>\<open>None\<close>, a number or a string.
\<close>

datatype number = Fin rat | NaN

datatype scalar = SNone | SNum number | SStr string

text \<open>
  A callback argument decoded from JSON: a scalar, a finite float, or a list of such
  values. Python keeps apart the int \<^verbatim>\<open>1000\<close> and the float \<^verbatim>\<open>1000.0\<close>, and pandas
  compares differently with them: among the arguments a number given as a scalar is an
  \<^verbatim>\<open>int\<close> (or a \<^verbatim>\<open>bool\<close>) or the float \<^verbatim>\<open>nan\<close>, and a finite float is \<open>PFloat\<close> of its value.
\<close>

datatype pyval = PScalar scalar | PFloat rat | PSeq "pyval list"

datatype error = KeyError | TypeError | ValueError | NameError | FileNotFoundError

text \<open>
  A data frame: its column labels and its rows, each row holding the cells in the order
  of the labels.
\<close>

record dataframe =
  columns :: "string list"
  rows :: "scalar list list"

text \<open>
  Python objects live in a store; a name holds a reference. Data frames are the only
  objects the callbacks create or change, so the store is a list of frames and a
  reference is a position in it.
\<close>

type_synonym ref = nat
type_synonym heap = "dataframe list"
type_synonym 'a prog = "heap \<Rightarrow> (error + 'a) \<times> heap"

definition ret :: "'a \<Rightarrow> 'a prog" where
  "ret x = (\<lambda>h. (Inr x, h))"

definition raise :: "error \<Rightarrow> 'a prog" where
  "raise e = (\<lambda>h. (Inl e, h))"

definition lift :: "error + 'a \<Rightarrow> 'a prog" where
  "lift r = (\<lambda>h. (r, h))"

definition bind :: "'a prog \<Rightarrow> ('a \<Rightarrow> 'b prog) \<Rightarrow> 'b prog" where
  "bind m f = (\<lambda>h. case m h of (Inl e, h') \<Rightarrow> (Inl e, h') | (Inr x, h') \<Rightarrow> f x h')"

text \<open>Reading the frame a name refers to; an unbound name is a \<^verbatim>\<open>NameError\<close>.\<close>

definition deref :: "ref \<Rightarrow> dataframe prog" where
  "deref r = (\<lambda>h. if r < length h then (Inr (h ! r), h) else (Inl NameError, h))"

text \<open>Creating a new object: it is put at the end of the store.\<close>

definition alloc :: "dataframe \<Rightarrow> ref prog" where
  "alloc df = (\<lambda>h. (Inr (length h), h @ [df]))"

section \<open>The pandas operations the script uses\<close>

text \<open>\<^verbatim>\<open>pd.isna\<close>: \<^verbatim>\<open>None\<close> and \<^verbatim>\<open>nan\<close> are the missing values.\<close>

fun isnull :: "scalar \<Rightarrow> bool" where
  "isnull SNone = True"
| "isnull (SNum NaN) = True"
| "isnull _ = False"

text \<open>
  The cell of a row under a column label. A row shorter than the header has missing
  cells there, as \<^verbatim>\<open>read_csv\<close> fills them.
\<close>

definition cell :: "string list \<Rightarrow> scalar list \<Rightarrow> string \<Rightarrow> scalar" where
  "cell cols r c = (case map_of (zip cols r) c of Some v \<Rightarrow> v | None \<Rightarrow> SNum NaN)"

definition col_values :: "dataframe \<Rightarrow> string \<Rightarrow> scalar list" where
  "col_values df c = map (\<lambda>r. cell (columns df) r c) (rows df)"

text \<open>\<^verbatim>\<open>df[c]\<close> for a label: the column as a series, \<^verbatim>\<open>KeyError\<close> when absent.\<close>

definition getitem_col :: "ref \<Rightarrow> string \<Rightarrow> scalar list prog" where
  "getitem_col r c =
     bind (deref r) (\<lambda>df.
       if c \<in> set (columns df) then ret (col_values df c) else raise KeyError)"

text \<open>
  \<^verbatim>\<open>series == v\<close>, element by element: a missing value equals nothing, otherwise Python
  equality (a number equals a number of the same value, a string an equal string).
\<close>

definition cell_eq :: "scalar \<Rightarrow> scalar \<Rightarrow> bool" where
  "cell_eq c v = (\<not> isnull c \<and> \<not> isnull v \<and> c = v)"

definition series_eq :: "scalar list \<Rightarrow> scalar \<Rightarrow> bool list" where
  "series_eq xs v = map (\<lambda>c. cell_eq c v) xs"

text \<open>
  Conversion to float64. A whole number of more than 53 bits is rounded to the nearest
  number that float64 holds, a tie to the one whose last kept bit is 0; every other whole
  number converts exactly. A number with a fractional part can only be a float and is
  left as it is. Overflow to infinity is not modelled. In \<open>round_nat\<close> the number \<open>k\<close> of
  dropped bits is a difference of naturals: it is 0 for a number of at most 53 bits, which
  is then returned unchanged.
\<close>

fun bitlen :: "nat \<Rightarrow> nat" where
  "bitlen n = (if n = 0 then 0 else Suc (bitlen (n div 2)))"

definition round_nat :: "nat \<Rightarrow> nat" where
  "round_nat a =
     (let k = bitlen a - 53; q = a div 2 ^ k; r = a mod 2 ^ k
      in if 2 ^ k < 2 * r \<or> (2 * r = 2 ^ k \<and> odd q) then (q + 1) * 2 ^ k else q * 2 ^ k)"

definition is_whole :: "rat \<Rightarrow> bool" where
  "is_whole x = (of_int \<lfloor>x\<rfloor> = x)"

definition to_float64 :: "rat \<Rightarrow> rat" where
  "to_float64 x =
     (if is_whole x then
        (if x < 0 then - of_nat (round_nat (nat (- \<lfloor>x\<rfloor>)))
         else of_nat (round_nat (nat \<lfloor>x\<rfloor>)))
      else x)"

fun num_to_float :: "number \<Rightarrow> number" where
  "num_to_float (Fin x) = Fin (to_float64 x)"
| "num_to_float NaN = NaN"

fun cell_to_float :: "scalar \<Rightarrow> scalar" where
  "cell_to_float (SNum n) = SNum (num_to_float n)"
| "cell_to_float c = c"

text \<open>
  \<^verbatim>\<open>series >= n\<close> and \<^verbatim>\<open>series <= n\<close> for a number \<^verbatim>\<open>n\<close>: false at a missing cell and
  whenever \<^verbatim>\<open>nan\<close> is involved; a string cell cannot be ordered against a number and
  raises \<^verbatim>\<open>TypeError\<close>.

  A column whose cells are all whole numbers is an int64 column, and against an \<^verbatim>\<open>int\<close> it
  is compared exactly. In every other case (an int64 column against a float, a float64
  column against an int or a float) both sides are converted to float64 and then
  compared. The dtype is read off the cells: a column of whole floats (written
  \<^verbatim>\<open>500.0\<close>) is not told apart from an int64 column, which differs only against an
  \<^verbatim>\<open>int\<close> that float64 does not hold.
\<close>

fun num_ge :: "number \<Rightarrow> number \<Rightarrow> bool" where
  "num_ge (Fin a) (Fin b) = (a \<ge> b)"
| "num_ge _ _ = False"

fun num_le :: "number \<Rightarrow> number \<Rightarrow> bool" where
  "num_le (Fin a) (Fin b) = (a \<le> b)"
| "num_le _ _ = False"

fun is_str :: "scalar \<Rightarrow> bool" where
  "is_str (SStr _) = True"
| "is_str _ = False"

fun whole_cell :: "scalar \<Rightarrow> bool" where
  "whole_cell (SNum (Fin x)) = is_whole x"
| "whole_cell _ = False"

definition int_column :: "scalar list \<Rightarrow> bool" where
  "int_column xs = list_all whole_cell xs"

fun cell_cmp :: "(number \<Rightarrow> number \<Rightarrow> bool) \<Rightarrow> scalar \<Rightarrow> number \<Rightarrow> bool" where
  "cell_cmp op (SNum x) n = op x n"
| "cell_cmp op _ n = False"

definition cell_test ::
  "(number \<Rightarrow> number \<Rightarrow> bool) \<Rightarrow> bool \<Rightarrow> scalar \<Rightarrow> number \<Rightarrow> bool" where
  "cell_test op exact c n =
     (if exact then cell_cmp op c n else cell_cmp op (cell_to_float c) (num_to_float n))"

definition series_cmp ::
  "(number \<Rightarrow> number \<Rightarrow> bool) \<Rightarrow> scalar list \<Rightarrow> bool \<Rightarrow> number \<Rightarrow> error + bool list" where
  "series_cmp op xs float_bound n =
     (if list_ex is_str xs then Inl TypeError
      else Inr (map (\<lambda>c. cell_test op (int_column xs \<and> \<not> float_bound) c n) xs))"

definition series_ge :: "scalar list \<Rightarrow> bool \<Rightarrow> number \<Rightarrow> error + bool list" where
  "series_ge = series_cmp num_ge"

definition series_le :: "scalar list \<Rightarrow> bool \<Rightarrow> number \<Rightarrow> error + bool list" where
  "series_le = series_cmp num_le"

text \<open>\<^verbatim>\<open>m1 & m2\<close> of two boolean series over the same rows.\<close>

definition mask_and :: "bool list \<Rightarrow> bool list \<Rightarrow> bool list" where
  "mask_and m1 m2 = map (\<lambda>(a, b). a \<and> b) (zip m1 m2)"

text \<open>
  \<^verbatim>\<open>df[mask]\<close> for a boolean series: a new frame with the rows where the mask is true,
  in their order; the frame indexed is left as it is.
\<close>

definition select_rows :: "'a list \<Rightarrow> bool list \<Rightarrow> 'a list" where
  "select_rows xs keep = map fst (filter snd (zip xs keep))"

definition getitem_mask :: "ref \<Rightarrow> bool list \<Rightarrow> ref prog" where
  "getitem_mask r keep =
     bind (deref r) (\<lambda>df.
       if length keep \<noteq> length (rows df) then raise ValueError
       else alloc (df\<lparr>rows := select_rows (rows df) keep\<rparr>))"

text \<open>\<^verbatim>\<open>df.copy()\<close>: a new frame with the same labels and cells.\<close>

definition copy :: "ref \<Rightarrow> ref prog" where
  "copy r = bind (deref r) alloc"

text \<open>
  \<^verbatim>\<open>series.unique()\<close>: the distinct values in the order of their first appearance.
\<close>

definition unique :: "'a list \<Rightarrow> 'a list" where
  "unique xs = foldl (\<lambda>seen x. if x \<in> set seen then seen else seen @ [x]) [] xs"

text \<open>\<^verbatim>\<open>series.map(d)\<close> for a dict \<^verbatim>\<open>d\<close>: a value that is no key becomes \<^verbatim>\<open>nan\<close>.\<close>

definition series_map :: "(scalar \<times> scalar) list \<Rightarrow> scalar list \<Rightarrow> scalar list" where
  "series_map d xs = map (\<lambda>c. case map_of d c of Some v \<Rightarrow> v | None \<Rightarrow> SNum NaN) xs"

text \<open>
  \<^verbatim>\<open>series.value_counts()\<close>: missing values are dropped, each distinct value is counted,
  and the values are listed by falling count, values of equal count in the order of their
  first appearance.
\<close>

definition value_counts :: "scalar list \<Rightarrow> (scalar \<times> nat) list" where
  "value_counts xs =
     (let present = filter (\<lambda>c. \<not> isnull c) xs
      in sort_key (\<lambda>(v, n). - int n) (map (\<lambda>v. (v, count_list present v)) (unique present)))"

text \<open>
  \<^verbatim>\<open>.reset_index()\<close> of the counts of the series named \<^verbatim>\<open>name\<close>: a new frame of two
  columns, the values and their counts (labelled as pandas 2 does).
\<close>

definition reset_index :: "string \<Rightarrow> (scalar \<times> nat) list \<Rightarrow> ref prog" where
  "reset_index name counts =
     alloc \<lparr>columns = [name, ''count''],
            rows = map (\<lambda>(v, n). [v, SNum (Fin (of_nat n))]) counts\<rparr>"

text \<open>
  \<^verbatim>\<open>df.columns = labels\<close>: the one assignment of the script that changes an object in
  place. It raises \<^verbatim>\<open>ValueError\<close> when the number of labels differs.
\<close>

definition set_columns :: "ref \<Rightarrow> string list \<Rightarrow> unit prog" where
  "set_columns r labels =
     bind (deref r) (\<lambda>df.
       if length labels \<noteq> length (columns df) then raise ValueError
       else (\<lambda>h. (Inr (), h[r := df\<lparr>columns := labels\<rparr>])))"

section \<open>Chart descriptions\<close>

text \<open>
  A title is a literal text, followed by the value an f-string interpolates after it
  (formatted by \<^verbatim>\<open>str\<close>) when there is one.
\<close>

type_synonym title = "string \<times> scalar option"

text \<open>
  \<^verbatim>\<open>px.pie\<close> builds one pie trace: the labels column as it is, one entry per row, and
  the values column when one is named.
\<close>

record pie_fig =
  pie_labels :: "scalar list"
  pie_values :: "scalar list option"
  pie_title :: title

definition px_pie :: "ref \<Rightarrow> string option \<Rightarrow> string \<Rightarrow> title \<Rightarrow> pie_fig prog" where
  "px_pie r values names t =
     bind (deref r) (\<lambda>df.
       if names \<notin> set (columns df) then raise ValueError
       else case values of
         None \<Rightarrow> ret \<lparr>pie_labels = col_values df names, pie_values = None, pie_title = t\<rparr>
       | Some v \<Rightarrow>
           if v \<notin> set (columns df) then raise ValueError
           else ret \<lparr>pie_labels = col_values df names,
                     pie_values = Some (col_values df v), pie_title = t\<rparr>)"

text \<open>
  What a pie trace shows: entries with the same label form one slice; its size is the sum
  of their values, or the number of entries when the trace has no values. An entry whose
  value is not a non-negative number is left out. The slices are listed by the first
  appearance of their labels; the order in which the renderer draws them is not modelled.
\<close>

fun entry_of :: "scalar \<times> scalar \<Rightarrow> (scalar \<times> rat) list" where
  "entry_of (l, SNum (Fin v)) = (if v < 0 then [] else [(l, v)])"
| "entry_of (l, _) = []"

definition pie_entries :: "pie_fig \<Rightarrow> (scalar \<times> rat) list" where
  "pie_entries fig =
     (case pie_values fig of
        None \<Rightarrow> map (\<lambda>l. (l, 1)) (pie_labels fig)
      | Some vs \<Rightarrow> concat (map entry_of (zip (pie_labels fig) vs)))"

definition slices :: "pie_fig \<Rightarrow> (scalar \<times> rat) list" where
  "slices fig =
     (let es = pie_entries fig
      in map (\<lambda>k. (k, sum_list (map snd (filter (\<lambda>e. fst e = k) es)))) (unique (map fst es)))"

section \<open>The pie callback\<close>

definition status_dict :: "(scalar \<times> scalar) list" where
  "status_dict = [(SNum (Fin 1), SStr ''Success''), (SNum (Fin 0), SStr ''Failure'')]"

definition get_pie_chart :: "ref \<Rightarrow> scalar \<Rightarrow> pie_fig prog" where
  "get_pie_chart spacex_df entered_site =
     (let filtered_df = spacex_df in
      if entered_site = SStr ''ALL'' then
        bind (getitem_col filtered_df ''class'') (\<lambda>cls.
        bind (getitem_mask filtered_df (series_eq cls (SNum (Fin 1)))) (\<lambda>successful_launches_df.
        px_pie successful_launches_df None ''Launch Site''
          (''Total Successful Launches by Site'', None)))
      else
        bind (getitem_col filtered_df ''Launch Site'') (\<lambda>sites.
        bind (getitem_mask filtered_df (series_eq sites entered_site)) (\<lambda>site_filtered_df.
        bind (getitem_col site_filtered_df ''class'') (\<lambda>cls.
        bind (reset_index ''class'' (value_counts (series_map status_dict cls))) (\<lambda>status_counts.
        bind (set_columns status_counts [''status'', ''count'']) (\<lambda>_.
        px_pie status_counts (Some ''count'') ''status''
          (''Successful vs. Failed Launches for site '', Some entered_site)))))))"

section \<open>The scatter callback\<close>

text \<open>
  \<^verbatim>\<open>px.scatter\<close>, called either with a frame and the labels of the x, y and colour
  columns, or with a title alone. Each named column must be in the frame. The chart
  description keeps the frame it was given and the encoding.
\<close>

record scatter_fig =
  sc_frame :: dataframe
  sc_encoding :: "(string \<times> string \<times> string) option"
  sc_title :: title

fun px_scatter :: "(ref \<times> string \<times> string \<times> string) option \<Rightarrow> title \<Rightarrow> scatter_fig prog" where
  "px_scatter None t =
     ret \<lparr>sc_frame = \<lparr>columns = [], rows = []\<rparr>, sc_encoding = None, sc_title = t\<rparr>"
| "px_scatter (Some (r, x, y, color)) t =
     bind (deref r) (\<lambda>df.
       if x \<in> set (columns df) \<and> y \<in> set (columns df) \<and> color \<in> set (columns df)
       then ret \<lparr>sc_frame = df, sc_encoding = Some (x, y, color), sc_title = t\<rparr>
       else raise ValueError)"

text \<open>
  The points of a scatter chart: one per row of its frame, as (x, y, colour). (A row
  whose colour cell is missing is kept here; \<^verbatim>\<open>px.scatter\<close> leaves it out.)
\<close>

definition points :: "scatter_fig \<Rightarrow> (scalar \<times> scalar \<times> scalar) list" where
  "points fig =
     (case sc_encoding fig of
        None \<Rightarrow> []
      | Some (x, y, color) \<Rightarrow>
          map (\<lambda>r. (cell (columns (sc_frame fig)) r x,
                     cell (columns (sc_frame fig)) r y,
                     cell (columns (sc_frame fig)) r color))
              (rows (sc_frame fig)))"

text \<open>
  \<^verbatim>\<open>low, high = payload_range\<close>: a sequence of two elements is taken apart (a string of
  two characters gives its two characters); a sequence of another length raises
  \<^verbatim>\<open>ValueError\<close>, a value that is no sequence \<^verbatim>\<open>TypeError\<close>.
\<close>

fun unpack2 :: "pyval \<Rightarrow> error + pyval \<times> pyval" where
  "unpack2 (PSeq [a, b]) = Inr (a, b)"
| "unpack2 (PSeq _) = Inl ValueError"
| "unpack2 (PScalar (SStr [c, d])) = Inr (PScalar (SStr [c]), PScalar (SStr [d]))"
| "unpack2 (PScalar (SStr _)) = Inl ValueError"
| "unpack2 (PScalar _) = Inl TypeError"
| "unpack2 (PFloat _) = Inl TypeError"

text \<open>
  \<^verbatim>\<open>isinstance(v, (int, float))\<close>, giving the number when it holds, and whether the
  number is a \<^verbatim>\<open>float\<close>.
\<close>

fun as_number :: "pyval \<Rightarrow> number option" where
  "as_number (PScalar (SNum n)) = Some n"
| "as_number (PFloat x) = Some (Fin x)"
| "as_number _ = None"

fun float_arg :: "pyval \<Rightarrow> bool" where
  "float_arg (PFloat x) = True"
| "float_arg (PScalar (SNum NaN)) = True"
| "float_arg _ = False"

definition payload_col :: string where
  "payload_col = ''Payload Mass (kg)''"

definition get_scatter_chart :: "ref \<Rightarrow> scalar \<Rightarrow> pyval \<Rightarrow> scatter_fig prog" where
  "get_scatter_chart spacex_df entered_site payload_range =
     bind (lift (unpack2 payload_range)) (\<lambda>(low, high).
     bind (deref spacex_df) (\<lambda>df.
     if payload_col \<notin> set (columns df) then
       px_scatter None (''Payload Mass (kg) column missing'', None)
     else
       bind (case (as_number low, as_number high) of
               (Some lo, Some hi) \<Rightarrow>
                 bind (getitem_col spacex_df payload_col) (\<lambda>p1.
                 bind (lift (series_ge p1 (float_arg low) lo)) (\<lambda>m1.
                 bind (getitem_col spacex_df payload_col) (\<lambda>p2.
                 bind (lift (series_le p2 (float_arg high) hi)) (\<lambda>m2.
                 getitem_mask spacex_df (mask_and m1 m2)))))
             | _ \<Rightarrow> copy spacex_df) (\<lambda>current_filtered_df.
       if entered_site = SStr ''ALL'' then
         px_scatter
           (Some (current_filtered_df, payload_col, ''class'', ''Booster Version Category''))
           (''Payload vs. Launch Outcome for All Sites'', None)
       else
         bind (getitem_col current_filtered_df ''Launch Site'') (\<lambda>sites.
         bind (getitem_mask current_filtered_df (series_eq sites entered_site))
           (\<lambda>site_filtered_df.
         px_scatter
           (Some (site_filtered_df, payload_col, ''class'', ''Booster Version Category''))
           (''Payload vs. Launch Outcome for site '', Some entered_site))))))"

section \<open>Loading the dataset\<close>

text \<open>
  \<^verbatim>\<open>pd.read_csv\<close> is outside the script: its outcome, the parsed frame or the exception it
  raised, is the input here. Only \<^verbatim>\<open>FileNotFoundError\<close> is caught; the script then prints
  a message and builds a frame of one row. The result is the printed lines and the frame
  bound to \<^verbatim>\<open>spacex_df\<close>, or the exception that ends the script.
\<close>

definition placeholder_df :: dataframe where
  "placeholder_df =
     \<lparr>columns = [''Payload Mass (kg)'', ''Launch Site'', ''class'', ''Booster Version Category''],
      rows = [[SNum (Fin 0), SStr ''Default'', SNum (Fin 0), SStr ''Default'']]\<rparr>"

definition not_found_message :: string where
  "not_found_message =
     ''Error: 'spacex_launch_dash.csv' not found. Please ensure the file is in the correct directory.''"

fun load_dataset :: "error + dataframe \<Rightarrow> string list \<times> (error + dataframe)" where
  "load_dataset (Inr df) = ([], Inr df)"
| "load_dataset (Inl FileNotFoundError) = ([not_found_message], Inr placeholder_df)"
| "load_dataset (Inl e) = ([], Inl e)"

section \<open>The layout\<close>

text \<open>
  \<^verbatim>\<open>series.max()\<close> and \<^verbatim>\<open>series.min()\<close> skip missing values and give \<^verbatim>\<open>nan\<close> when
  nothing is left. Only columns of numbers are modelled: a column with a string cell is
  reported as \<^verbatim>\<open>TypeError\<close>, which is what ordering a string against a number raises
  (pandas orders a column of strings alone; no statement below depends on that case).
\<close>

fun fin_values :: "scalar list \<Rightarrow> rat list" where
  "fin_values [] = []"
| "fin_values (SNum (Fin v) # xs) = v # fin_values xs"
| "fin_values (_ # xs) = fin_values xs"

definition series_agg :: "(rat \<Rightarrow> rat \<Rightarrow> rat) \<Rightarrow> scalar list \<Rightarrow> error + scalar" where
  "series_agg f xs =
     (if list_ex is_str xs then Inl TypeError
      else case fin_values xs of
             [] \<Rightarrow> Inr (SNum NaN)
           | v # vs \<Rightarrow> Inr (SNum (Fin (fold f vs v))))"

definition series_max :: "scalar list \<Rightarrow> error + scalar" where
  "series_max = series_agg max"

definition series_min :: "scalar list \<Rightarrow> error + scalar" where
  "series_min = series_agg min"

text \<open>\<^verbatim>\<open>range(start, stop, step)\<close> for a positive step, and \<^verbatim>\<open>str\<close> of an integer.\<close>

definition py_range :: "int \<Rightarrow> int \<Rightarrow> int \<Rightarrow> int list" where
  "py_range start stop step =
     map (\<lambda>k. start + int k * step) [0 ..< nat ((stop - start + step - 1) div step)]"

fun digits :: "nat \<Rightarrow> string" where
  "digits n =
     (if n < 10 then [''0123456789'' ! n]
      else digits (n div 10) @ [''0123456789'' ! (n mod 10)])"

definition str_int :: "int \<Rightarrow> string" where
  "str_int i = (if i < 0 then CHR ''-'' # digits (nat (- i)) else digits (nat i))"

record layout =
  dropdown_options :: "(scalar \<times> scalar) list"
  dropdown_value :: scalar
  slider_min :: int
  slider_max :: int
  slider_step :: int
  slider_marks :: "(int \<times> string) list"
  slider_value :: "scalar list"

text \<open>
  The statements of the script between the load and the callbacks: the two bounds of the
  payload column, then the page description (of which the two controls are kept).
\<close>

definition app_layout :: "ref \<Rightarrow> layout prog" where
  "app_layout spacex_df =
     bind (getitem_col spacex_df payload_col) (\<lambda>p1.
     bind (lift (series_max p1)) (\<lambda>max_payload.
     bind (getitem_col spacex_df payload_col) (\<lambda>p2.
     bind (lift (series_min p2)) (\<lambda>min_payload.
     bind (getitem_col spacex_df ''Launch Site'') (\<lambda>sites.
     ret \<lparr>dropdown_options =
            (SStr ''All Sites'', SStr ''ALL'') # map (\<lambda>site. (site, site)) (unique sites),
          dropdown_value = SStr ''ALL'',
          slider_min = 0,
          slider_max = 10000,
          slider_step = 1000,
          slider_marks = map (\<lambda>i. (i, str_int i)) (py_range 0 10001 1000),
          slider_value =
            [if \<not> isnull min_payload then min_payload else SNum (Fin 0),
             if \<not> isnull max_payload then max_payload else SNum (Fin 10000)]\<rparr>)))))"


section \<open>Vocabulary of the statements\<close>

text \<open>The cells of a row of a frame that the callbacks look at.\<close>

definition site_of :: "dataframe \<Rightarrow> scalar list \<Rightarrow> scalar" where
  "site_of df r = cell (columns df) r ''Launch Site''"

definition class_of :: "dataframe \<Rightarrow> scalar list \<Rightarrow> scalar" where
  "class_of df r = cell (columns df) r ''class''"

definition payload_of :: "dataframe \<Rightarrow> scalar list \<Rightarrow> scalar" where
  "payload_of df r = cell (columns df) r payload_col"

text \<open>A dataset is a frame that has the four columns of a launch record.\<close>

definition is_dataset :: "dataframe \<Rightarrow> bool" where
  "is_dataset df =
     (payload_col \<in> set (columns df) \<and> ''Launch Site'' \<in> set (columns df) \<and>
      ''class'' \<in> set (columns df) \<and> ''Booster Version Category'' \<in> set (columns df))"

text \<open>The rows whose outcome class is 1, and the rows of one launch site.\<close>

definition successes :: "dataframe \<Rightarrow> scalar list list" where
  "successes df = filter (\<lambda>r. class_of df r = SNum (Fin 1)) (rows df)"

definition site_rows :: "dataframe \<Rightarrow> scalar \<Rightarrow> scalar list list" where
  "site_rows df s = filter (\<lambda>r. cell_eq (site_of df r) s) (rows df)"

text \<open>The outcome class of every row is 0 or 1.\<close>

definition binary_class :: "dataframe \<Rightarrow> bool" where
  "binary_class df =
     list_all (\<lambda>r. class_of df r = SNum (Fin 0) \<or> class_of df r = SNum (Fin 1)) (rows df)"

text \<open>What \<^verbatim>\<open>.map\<close> with the status dict makes of one outcome class.\<close>

definition status_of :: "scalar \<Rightarrow> scalar" where
  "status_of c = (case map_of status_dict c of Some v \<Rightarrow> v | None \<Rightarrow> SNum NaN)"

text \<open>A dataset of three launches from two sites, used to run the statements.\<close>

definition example_df :: dataframe where
  "example_df =
     \<lparr>columns = [''Payload Mass (kg)'', ''Launch Site'', ''class'', ''Booster Version Category''],
      rows = [[SNum (Fin 500), SStr ''A'', SNum (Fin 1), SStr ''B1''],
              [SNum (Fin 500), SStr ''A'', SNum (Fin 0), SStr ''B2''],
              [SNum (Fin 9000), SStr ''B'', SNum (Fin 1), SStr ''B1'']]\<rparr>"

text \<open>
  A payload cell passes the interval filter of the scatter callback: the two comparisons
  the callback makes with the ends of the interval, as made on the payload column of the
  frame. With an end that is no number nothing is compared and every cell passes.
\<close>

definition in_interval :: "dataframe \<Rightarrow> pyval \<Rightarrow> pyval \<Rightarrow> scalar \<Rightarrow> bool" where
  "in_interval df low high c =
     (case (as_number low, as_number high) of
        (Some a, Some b) \<Rightarrow>
          cell_test num_ge (int_column (col_values df payload_col) \<and> \<not> float_arg low) c a \<and>
          cell_test num_le (int_column (col_values df payload_col) \<and> \<not> float_arg high) c b
      | _ \<Rightarrow> True)"

text \<open>
  float64 holds a number exactly, and holds every payload of a frame exactly.
\<close>

definition float_exact :: "rat \<Rightarrow> bool" where
  "float_exact x = (to_float64 x = x)"

fun exact_cell :: "scalar \<Rightarrow> bool" where
  "exact_cell (SNum (Fin p)) = float_exact p"
| "exact_cell _ = True"

definition exact_payloads :: "dataframe \<Rightarrow> bool" where
  "exact_payloads df = list_all exact_cell (col_values df payload_col)"

text \<open>No payload cell is a string: the payload column holds numbers and missing values.\<close>

definition numeric_payload :: "dataframe \<Rightarrow> bool" where
  "numeric_payload df = (\<not> list_ex is_str (col_values df payload_col))"

text \<open>The chart \<^verbatim>\<open>px.scatter\<close> returns when it is given a title only.\<close>

definition empty_scatter :: "title \<Rightarrow> scatter_fig" where
  "empty_scatter t = \<lparr>sc_frame = \<lparr>columns = [], rows = []\<rparr>, sc_encoding = None, sc_title = t\<rparr>"

text \<open>The test the scatter callback applies to each end of the interval.\<close>

definition valid_number :: "pyval \<Rightarrow> bool" where
  "valid_number v = (as_number v \<noteq> None)"

text \<open>A frame without the payload column.\<close>

definition no_payload_df :: dataframe where
  "no_payload_df =
     \<lparr>columns = [''Launch Site'', ''class'', ''Booster Version Category''],
      rows = [[SStr ''A'', SNum (Fin 1), SStr ''B1'']]\<rparr>"

text \<open>
  A program keeps the first \<open>n\<close> objects of the store: run in any store that has them, it
  ends in a store that still has them, unchanged; \<open>Q\<close> holds of the value it returns.
\<close>

definition keeps :: "nat \<Rightarrow> 'a prog \<Rightarrow> ('a \<Rightarrow> bool) \<Rightarrow> bool" where
  "keeps n m Q =
     (\<forall>h. n \<le> length h \<longrightarrow>
        (case m h of (r, h') \<Rightarrow>
           n \<le> length h' \<and> take n h' = take n h \<and>
           (case r of Inl e \<Rightarrow> True | Inr x \<Rightarrow> Q x)))"

text \<open>A dataset of one launch whose payload, an int, has 54 bits.\<close>

definition big_df :: dataframe where
  "big_df =
     \<lparr>columns = [''Payload Mass (kg)'', ''Launch Site'', ''class'', ''Booster Version Category''],
      rows = [[SNum (Fin 9007199254740993), SStr ''A'', SNum (Fin 1), SStr ''B1'']]\<rparr>"


section \<open>Facts about the operations\<close>

lemma select_rows_map: "select_rows xs (map P xs) = filter P xs"
  unfolding select_rows_def by (induction xs) auto

lemma unique_snoc:
  "unique (xs @ [x]) = (if x \<in> set (unique xs) then unique xs else unique xs @ [x])"
  by (simp add: unique_def)

lemma set_unique: "set (unique xs) = set xs"
  by (induction xs rule: rev_induct) (auto simp: unique_snoc, simp add: unique_def)

lemma distinct_unique: "distinct (unique xs)"
  by (induction xs rule: rev_induct) (auto simp: unique_snoc, simp add: unique_def)

lemma unique_Nil: "unique [] = []"
  by (simp add: unique_def)

lemma unique_first_seen:
  "unique xs = ys @ b # zs \<Longrightarrow> \<exists>pre post. xs = pre @ b # post \<and> b \<notin> set pre \<and> set pre = set ys"
proof (induction xs arbitrary: ys b zs rule: rev_induct)
  case Nil
  then show ?case by (simp add: unique_Nil)
next
  case (snoc x xs)
  show ?case
  proof (cases "x \<in> set xs")
    case True
    with snoc.prems have "unique xs = ys @ b # zs" by (simp add: unique_snoc set_unique)
    from snoc.IH[OF this] obtain pre post where "xs = pre @ b # post" "b \<notin> set pre" "set pre = set ys"
      by blast
    then have "xs @ [x] = pre @ b # (post @ [x]) \<and> b \<notin> set pre \<and> set pre = set ys" by simp
    then show ?thesis by blast
  next
    case False
    with snoc.prems have eq: "unique xs @ [x] = ys @ b # zs" by (simp add: unique_snoc set_unique)
    show ?thesis
    proof (cases zs rule: rev_cases)
      case Nil
      with eq have "unique xs = ys" "x = b" by simp_all
      then have "xs @ [x] = xs @ b # [] \<and> b \<notin> set xs \<and> set xs = set ys"
        using False set_unique[of xs] by simp
      then show ?thesis by blast
    next
      case (snoc zs' z)
      with eq have "unique xs = ys @ b # zs'" by simp
      from snoc.IH[OF this] obtain pre post where "xs = pre @ b # post" "b \<notin> set pre" "set pre = set ys"
        by blast
      then have "xs @ [x] = pre @ b # (post @ [x]) \<and> b \<notin> set pre \<and> set pre = set ys" by simp
      then show ?thesis by blast
    qed
  qed
qed

lemma sum_count_unique: "sum_list (map (\<lambda>k. count_list xs k) (unique xs)) = length xs"
  using sum_count_set[of xs "set xs"] 
  by (simp add: sum_list_distinct_conv_sum_set distinct_unique set_unique)

lemmas prog_defs = bind_def ret_def raise_def lift_def deref_def alloc_def

lemma cell_eq_one [simp]: "cell_eq c (SNum (Fin 1)) = (c = SNum (Fin 1))"
  by (auto simp: cell_eq_def)

lemma select_rows_series_eq:
  "select_rows rs (series_eq (map f rs) v) = filter (\<lambda>r. cell_eq (f r) v) rs"
  by (simp add: series_eq_def o_def select_rows_map)

lemma length_series_eq [simp]: "length (series_eq xs v) = length xs"
  by (simp add: series_eq_def)

lemma pie_all_run:
  assumes "g < length h" "''class'' \<in> set (columns (h ! g))" "''Launch Site'' \<in> set (columns (h ! g))"
  shows "get_pie_chart g (SStr ''ALL'') h =
     (Inr \<lparr>pie_labels = map (site_of (h ! g)) (successes (h ! g)), pie_values = None,
           pie_title = (''Total Successful Launches by Site'', None)\<rparr>,
      h @ [(h ! g)\<lparr>rows := successes (h ! g)\<rparr>])"
  using assms
  by (simp add: get_pie_chart_def getitem_col_def getitem_mask_def px_pie_def prog_defs
      col_values_def select_rows_series_eq successes_def class_of_def[abs_def] site_of_def[abs_def] nth_append)


lemma sum_ones_filter:
  "sum_list (map snd (filter (\<lambda>e. fst e = k) (map (\<lambda>l. (l, 1::rat)) ls))) = of_nat (count_list ls k)"
  by (induction ls) auto

lemma slices_counting:
  "pie_values fig = None \<Longrightarrow>
   slices fig = map (\<lambda>k. (k, of_nat (count_list (pie_labels fig) k))) (unique (pie_labels fig))"
  by (simp add: slices_def pie_entries_def Let_def sum_ones_filter o_def)

lemma count_list_map: "count_list (map f xs) k = length (filter (\<lambda>x. f x = k) xs)"
  by (induction xs) auto

lemma sum_list_of_nat:
  "sum_list (map (\<lambda>k. (of_nat (f k) :: rat)) ks) = of_nat (sum_list (map f ks))"
  by (induction ks) simp_all

lemma sum_count_unique_rat:
  "sum_list (map (\<lambda>k. (of_nat (count_list xs k) :: rat)) (unique xs)) = of_nat (length xs)"
  by (simp add: sum_list_of_nat sum_count_unique)


subsection \<open>Counting values\<close>

lemma status_of_simps:
  "status_of c = (if c = SNum (Fin 1) then SStr ''Success'' else if c = SNum (Fin 0) then SStr ''Failure'' else SNum NaN)"
  by (auto simp: status_of_def status_dict_def)

lemma series_map_status: "series_map status_dict xs = map status_of xs"
  by (simp add: series_map_def status_of_def)

lemma pie_site_run:
  assumes "g < length h" "h ! g = df" "''class'' \<in> set (columns df)" "''Launch Site'' \<in> set (columns df)"
    and "s \<noteq> SStr ''ALL''"
  shows "fst (get_pie_chart g s h) =
     Inr \<lparr>pie_labels = map fst (value_counts (map (\<lambda>r. status_of (class_of df r)) (site_rows df s))),
          pie_values = Some (map (\<lambda>(v, n). SNum (Fin (of_nat n)))
             (value_counts (map (\<lambda>r. status_of (class_of df r)) (site_rows df s)))),
          pie_title = (''Successful vs. Failed Launches for site '', Some s)\<rparr>"
  using assms
  by (simp add: get_pie_chart_def getitem_col_def getitem_mask_def px_pie_def prog_defs set_columns_def
      reset_index_def series_map_status cell_def
      col_values_def select_rows_series_eq site_rows_def class_of_def[abs_def] site_of_def[abs_def] nth_append o_def split_def)

lemma entries_of_counts:
  "concat (map entry_of (zip (map fst vc) (map (\<lambda>(v, n). SNum (Fin (of_nat n))) vc)))
     = map (\<lambda>(v, n). (v, of_nat n)) vc"
  by (induction vc) auto

lemma unique_distinct: "distinct xs \<Longrightarrow> unique xs = xs"
  by (induction xs rule: rev_induct) (simp_all add: unique_Nil unique_snoc set_unique)

lemma filter_key_distinct:
  "distinct (map f xs) \<Longrightarrow> x \<in> set xs \<Longrightarrow> filter (\<lambda>y. f y = f x) xs = [x]"
proof (induction xs)
  case Nil
  then show ?case by simp
next
  case (Cons a xs)
  show ?case
  proof (cases "x = a")
    case True
    have "filter (\<lambda>y. f y = f a) xs = []"
    proof -
      from Cons.prems(1) have "f a \<notin> f ` set xs" by simp
      then have "\<forall>y\<in>set xs. f y \<noteq> f a" by (auto simp: image_iff)
      then show ?thesis by (simp add: filter_empty_conv)
    qed
    with True show ?thesis by simp
  next
    case False
    with Cons.prems have "x \<in> set xs" "f a \<noteq> f x" by auto
    with Cons show ?thesis by simp
  qed
qed

lemma group_distinct:
  assumes "distinct (map fst es)"
  shows "map (\<lambda>k. (k, sum_list (map snd (filter (\<lambda>e. fst e = k) es)))) (unique (map fst es)) = (es :: ('a \<times> rat) list)"
proof -
  have "map (\<lambda>k. (k, sum_list (map snd (filter (\<lambda>e. fst e = k) es)))) (map fst es)
      = map (\<lambda>e. e) es"
    unfolding map_map
  proof (rule map_cong[OF refl])
    fix e assume "e \<in> set es"
    from filter_key_distinct[OF assms this]
    show "((\<lambda>k. (k, sum_list (map snd (filter (\<lambda>e. fst e = k) es)))) \<circ> fst) e = e"
      by simp
  qed
  then show ?thesis using assms by (simp add: unique_distinct)
qed

lemma sum_insort: "sum_list (map f (insort_key k x xs)) = (f x :: rat) + sum_list (map f xs)"
  by (induction xs) (auto simp: algebra_simps)

lemma sum_sort: "sum_list (map f (sort_key k xs)) = (sum_list (map f xs) :: rat)"
  by (induction xs) (simp_all add: sum_insort)

lemma distinct_insort_map:
  "distinct (map f (insort_key k x xs)) = distinct (map f (x # xs))"
  by (induction xs) (auto simp: set_insort_key)

lemma distinct_sort_map: "distinct (map f (sort_key k xs)) = distinct (map f xs)"
  by (induction xs) (simp_all add: distinct_insort_map)

lemma value_counts_keys: "distinct (map fst (value_counts xs))"
  by (simp add: value_counts_def Let_def distinct_sort_map o_def distinct_unique)

lemma value_counts_set:
  "set (value_counts xs) = (\<lambda>v. (v, count_list (filter (\<lambda>c. \<not> isnull c) xs) v)) ` set (filter (\<lambda>c. \<not> isnull c) xs)"
  by (simp add: value_counts_def Let_def set_unique)

lemma value_counts_total:
  "sum_list (map (\<lambda>(v, n). (of_nat n :: rat)) (value_counts xs)) = of_nat (length (filter (\<lambda>c. \<not> isnull c) xs))"
  by (simp add: value_counts_def Let_def sum_sort o_def sum_count_unique_rat)

lemma slices_of_counts:
  "slices \<lparr>pie_labels = map fst (value_counts xs),
           pie_values = Some (map (\<lambda>(v, n). SNum (Fin (of_nat n))) (value_counts xs)),
           pie_title = t\<rparr> = map (\<lambda>(v, n). (v, of_nat n)) (value_counts xs)"
proof -
  have d: "distinct (map fst (map (\<lambda>(v, n). (v, (of_nat n :: rat))) (value_counts xs)))"
    using value_counts_keys[of xs] by (simp add: o_def split_def)
  show ?thesis
    using group_distinct[OF d]
    by (simp add: slices_def pie_entries_def entries_of_counts Let_def)
qed

lemma count_success:
  "count_list (filter (\<lambda>c. \<not> isnull c) (map (\<lambda>r. status_of (g r)) rs)) (SStr ''Success'')
     = length (filter (\<lambda>r. g r = SNum (Fin 1)) rs)"
  by (induction rs) (simp_all add: status_of_simps)

lemma count_failure:
  "count_list (filter (\<lambda>c. \<not> isnull c) (map (\<lambda>r. status_of (g r)) rs)) (SStr ''Failure'')
     = length (filter (\<lambda>r. g r = SNum (Fin 0)) rs)"
  by (induction rs) (simp_all add: status_of_simps)

lemma present_labels:
  "set (filter (\<lambda>c. \<not> isnull c) (map (\<lambda>r. status_of (g r)) rs)) \<subseteq> {SStr ''Success'', SStr ''Failure''}"
  by (induction rs) (simp_all add: status_of_simps)

lemma length_present:
  "length (filter (\<lambda>c. \<not> isnull c) (map (\<lambda>r. status_of (g r)) rs))
     = length (filter (\<lambda>r. g r = SNum (Fin 0) \<or> g r = SNum (Fin 1)) rs)"
  by (induction rs) (simp_all add: status_of_simps)

lemma slices_member:
  "(l, v) \<in> set (map (\<lambda>(v, n). (v, (of_nat n :: rat))) (value_counts xs)) \<longleftrightarrow>
     l \<in> set (filter (\<lambda>c. \<not> isnull c) xs) \<and> v = of_nat (count_list (filter (\<lambda>c. \<not> isnull c) xs) l)"
  by (auto simp: value_counts_set)


subsection \<open>Runs of the scatter callback\<close>

lemma mask_and_map: "mask_and (map P xs) (map Q xs) = map (\<lambda>x. P x \<and> Q x) xs"
  by (induction xs) (simp_all add: mask_and_def)

lemma bitlen_bound: "a < 2 ^ n \<Longrightarrow> bitlen a \<le> n"
proof (induction n arbitrary: a)
  case 0
  then show ?case by simp
next
  case (Suc n)
  show ?case
  proof (cases "a = 0")
    case True
    then show ?thesis by simp
  next
    case False
    from Suc.prems have "a div 2 < 2 ^ n" by simp
    from Suc.IH[OF this] False show ?thesis by (subst bitlen.simps) simp
  qed
qed

lemma round_nat_small: "a < 2 ^ 53 \<Longrightarrow> round_nat a = a"
  using bitlen_bound[of a 53] by (simp add: round_nat_def del: bitlen.simps)

lemma float_exact_fraction: "\<not> is_whole x \<Longrightarrow> float_exact x"
  by (simp add: float_exact_def to_float64_def)

lemma float_exact_small:
  assumes "is_whole x" and "\<bar>x\<bar> < 2 ^ 53"
  shows "float_exact x"
proof -
  define n where "n = \<lfloor>x\<rfloor>"
  have x: "x = of_int n" using assms(1) unfolding is_whole_def n_def by (rule sym)
  have "rat_of_int \<bar>n\<bar> < rat_of_int (2 ^ 53)" using assms(2) unfolding x by simp
  then have n: "\<bar>n\<bar> < 2 ^ 53" by (simp only: of_int_less_iff)
  show ?thesis
  proof (cases "n < 0")
    case True
    have "nat (- n) < 2 ^ 53" using n True by simp
    then have "round_nat (nat (- n)) = nat (- n)" by (rule round_nat_small)
    moreover have "- rat_of_nat (nat (- n)) = rat_of_int n" using True by simp
    ultimately show ?thesis
      using True assms(1) unfolding float_exact_def to_float64_def x by simp
  next
    case False
    have "nat n < 2 ^ 53" using n False by simp
    then have "round_nat (nat n) = nat n" by (rule round_nat_small)
    moreover have "rat_of_nat (nat n) = rat_of_int n" using False by simp
    ultimately show ?thesis
      using False assms(1) unfolding float_exact_def to_float64_def x by simp
  qed
qed

lemma cell_test_exact:
  assumes "exact_cell c" and "float_exact b"
  shows "cell_test op e c (Fin b) = cell_cmp op c (Fin b)"
proof (cases c)
  case (SNum n)
  then show ?thesis using assms by (cases n) (simp_all add: cell_test_def float_exact_def)
qed (simp_all add: cell_test_def)

lemma in_interval_exact:
  assumes "as_number lo = Some (Fin a)" and "as_number hi = Some (Fin b)"
    and "float_exact a" and "float_exact b" and "exact_cell c"
  shows "in_interval df lo hi c \<longleftrightarrow> (\<exists>p. c = SNum (Fin p) \<and> a \<le> p \<and> p \<le> b)"
proof (cases c)
  case (SNum n)
  then show ?thesis
    using assms by (cases n) (auto simp: in_interval_def cell_test_exact)
qed (simp_all add: in_interval_def assms cell_test_exact)

lemma scatter_guard:
  assumes "g < length h" "payload_col \<notin> set (columns (h ! g))" "unpack2 pr = Inr (lo, hi)"
  shows "get_scatter_chart g s pr h =
           (Inr (empty_scatter (''Payload Mass (kg) column missing'', None)), h)"
  using assms
  by (simp add: get_scatter_chart_def prog_defs empty_scatter_def)

lemma scatter_numeric_all:
  assumes "g < length h" "h ! g = df" "is_dataset df" "numeric_payload df"
    and "unpack2 pr = Inr (lo, hi)" "as_number lo = Some a" "as_number hi = Some b"
  shows "fst (get_scatter_chart g (SStr ''ALL'') pr h) =
           Inr \<lparr>sc_frame = df\<lparr>rows := filter (\<lambda>r. in_interval df lo hi (payload_of df r)) (rows df)\<rparr>,
                sc_encoding = Some (payload_col, ''class'', ''Booster Version Category''),
                sc_title = (''Payload vs. Launch Outcome for All Sites'', None)\<rparr>"
  using assms
  by (simp add: get_scatter_chart_def prog_defs getitem_col_def getitem_mask_def is_dataset_def
      numeric_payload_def series_ge_def series_le_def series_cmp_def col_values_def mask_and_map
      select_rows_map in_interval_def payload_of_def[abs_def] nth_append)

lemma scatter_numeric_site:
  assumes "g < length h" "h ! g = df" "is_dataset df" "numeric_payload df"
    and "unpack2 pr = Inr (lo, hi)" "as_number lo = Some a" "as_number hi = Some b"
    and "s \<noteq> SStr ''ALL''"
  shows "fst (get_scatter_chart g s pr h) =
           Inr \<lparr>sc_frame = df\<lparr>rows := filter (\<lambda>r. cell_eq (site_of df r) s)
                                    (filter (\<lambda>r. in_interval df lo hi (payload_of df r)) (rows df))\<rparr>,
                sc_encoding = Some (payload_col, ''class'', ''Booster Version Category''),
                sc_title = (''Payload vs. Launch Outcome for site '', Some s)\<rparr>"
  using assms
  by (simp add: get_scatter_chart_def prog_defs getitem_col_def getitem_mask_def is_dataset_def
      numeric_payload_def series_ge_def series_le_def series_cmp_def col_values_def mask_and_map
      select_rows_map select_rows_series_eq in_interval_def payload_of_def[abs_def] site_of_def[abs_def] nth_append)

lemma in_interval_fallback:
  "as_number lo = None \<or> as_number hi = None \<Longrightarrow> in_interval df lo hi c"
  by (auto simp: in_interval_def split: option.splits)

lemma scatter_fallback_all:
  assumes "g < length h" "h ! g = df" "is_dataset df"
    and "unpack2 pr = Inr (lo, hi)" "as_number lo = None \<or> as_number hi = None"
  shows "fst (get_scatter_chart g (SStr ''ALL'') pr h) =
           Inr \<lparr>sc_frame = df,
                sc_encoding = Some (payload_col, ''class'', ''Booster Version Category''),
                sc_title = (''Payload vs. Launch Outcome for All Sites'', None)\<rparr>"
  using assms
  by (auto simp add: get_scatter_chart_def prog_defs copy_def is_dataset_def nth_append split: option.splits)

lemma scatter_fallback_site:
  assumes "g < length h" "h ! g = df" "is_dataset df"
    and "unpack2 pr = Inr (lo, hi)" "as_number lo = None \<or> as_number hi = None"
    and "s \<noteq> SStr ''ALL''"
  shows "fst (get_scatter_chart g s pr h) =
           Inr \<lparr>sc_frame = df\<lparr>rows := site_rows df s\<rparr>,
                sc_encoding = Some (payload_col, ''class'', ''Booster Version Category''),
                sc_title = (''Payload vs. Launch Outcome for site '', Some s)\<rparr>"
  using assms
  by (auto simp add: get_scatter_chart_def prog_defs copy_def is_dataset_def nth_append getitem_col_def
      getitem_mask_def col_values_def select_rows_series_eq site_rows_def site_of_def[abs_def] split: option.splits)

lemma scatter_needs_pair:
  "fst (get_scatter_chart g s pr h) = Inr fig \<Longrightarrow> \<exists>a b. unpack2 pr = Inr (a, b)"
  by (cases "unpack2 pr") (auto simp: get_scatter_chart_def prog_defs)

lemma scatter_returns:
  assumes "g < length h" and "is_dataset (h ! g)" and "numeric_payload (h ! g)"
    and "unpack2 pr = Inr (a, b)"
  shows "\<exists>fig. fst (get_scatter_chart g s pr h) = Inr fig"
proof (cases "as_number a = None \<or> as_number b = None")
  case True
  show ?thesis
  proof (cases "s = SStr ''ALL''")
    case True
    with scatter_fallback_all[OF assms(1) refl assms(2,4) \<open>as_number a = None \<or> as_number b = None\<close>]
    show ?thesis by simp
  next
    case False
    with scatter_fallback_site[OF assms(1) refl assms(2,4) True False] show ?thesis by simp
  qed
next
  case False
  then obtain x y where xy: "as_number a = Some x" "as_number b = Some y" by auto
  show ?thesis
  proof (cases "s = SStr ''ALL''")
    case True
    with scatter_numeric_all[OF assms(1) refl assms(2,3,4) xy] show ?thesis by simp
  next
    case False
    with scatter_numeric_site[OF assms(1) refl assms(2,3,4) xy False] show ?thesis by simp
  qed
qed

lemma bitlen_0: "bitlen 0 = 0"
  by simp

lemma bitlen_pos: "0 < n \<Longrightarrow> bitlen n = Suc (bitlen (n div 2))"
  by (subst bitlen.simps) simp

lemma bitlen_54a: "bitlen 9007199254740993 = 54"
  by (simp add: bitlen_pos bitlen_0 del: bitlen.simps)

lemma bitlen_54b: "bitlen 9007199254740992 = 54"
  by (simp add: bitlen_pos bitlen_0 del: bitlen.simps)

lemma round_nat_big: "round_nat 9007199254740993 = 9007199254740992"
  by (simp add: round_nat_def bitlen_54a del: bitlen.simps)

lemma round_nat_2_53: "round_nat 9007199254740992 = 9007199254740992"
  by (simp add: round_nat_def bitlen_54b del: bitlen.simps)

lemma to_float64_big: "to_float64 9007199254740993 = 9007199254740992"
  by (simp add: to_float64_def is_whole_def round_nat_big del: bitlen.simps)

lemma to_float64_2_53: "to_float64 9007199254740992 = 9007199254740992"
  by (simp add: to_float64_def is_whole_def round_nat_2_53 del: bitlen.simps)

lemma exact_payloads_row:
  "exact_payloads df \<Longrightarrow> r \<in> set (rows df) \<Longrightarrow> exact_cell (payload_of df r)"
  by (simp add: exact_payloads_def col_values_def list_all_iff payload_of_def)


subsection \<open>Bounds, ranges and the layout\<close>

lemma fold_max_Max: "fold max vs (v :: rat) = Max (set (v # vs))"
  using Max.set_eq_fold[of v vs] by simp

lemma fold_min_Min: "fold min vs (v :: rat) = Min (set (v # vs))"
  using Min.set_eq_fold[of v vs] by simp

lemma series_max_value:
  "\<not> list_ex is_str xs \<Longrightarrow>
   series_max xs = Inr (if fin_values xs = [] then SNum NaN else SNum (Fin (Max (set (fin_values xs)))))"
  by (cases "fin_values xs") (simp_all add: series_max_def series_agg_def fold_max_Max del: set_simps)

lemma series_min_value:
  "\<not> list_ex is_str xs \<Longrightarrow>
   series_min xs = Inr (if fin_values xs = [] then SNum NaN else SNum (Fin (Min (set (fin_values xs)))))"
  by (cases "fin_values xs") (simp_all add: series_min_def series_agg_def fold_min_Min del: set_simps)

lemma fin_values_set: "set (fin_values xs) = {v. SNum (Fin v) \<in> set xs}"
  by (induction xs rule: fin_values.induct) auto

lemma range_value:
  "py_range 0 10001 1000 = [0, 1000, 2000, 3000, 4000, 5000, 6000, 7000, 8000, 9000, 10000]"
  by code_simp

lemma digits_small: "n < 10 \<Longrightarrow> digits n = [''0123456789'' ! n]"
  by (subst digits.simps) simp

lemma digits_large: "10 \<le> n \<Longrightarrow> digits n = digits (n div 10) @ [''0123456789'' ! (n mod 10)]"
  by (subst digits.simps) simp

lemma str_int_values:
  "str_int 0 = ''0''" "str_int 1000 = ''1000''" "str_int 2000 = ''2000''"
  "str_int 3000 = ''3000''" "str_int 4000 = ''4000''" "str_int 5000 = ''5000''"
  "str_int 6000 = ''6000''" "str_int 7000 = ''7000''" "str_int 8000 = ''8000''"
  "str_int 9000 = ''9000''" "str_int 10000 = ''10000''"
  by (simp_all add: str_int_def digits_small digits_large del: digits.simps)

lemma marks_value:
  "map (\<lambda>i. (i, str_int i)) (py_range 0 10001 1000) =
     [(0, ''0''), (1000, ''1000''), (2000, ''2000''), (3000, ''3000''), (4000, ''4000''),
      (5000, ''5000''), (6000, ''6000''), (7000, ''7000''), (8000, ''8000''),
      (9000, ''9000''), (10000, ''10000'')]"
  by (simp only: range_value list.map str_int_values)

lemma layout_run:
  assumes "g < length h" "h ! g = df" "is_dataset df" "numeric_payload df"
  shows "app_layout g h =
    (Inr \<lparr>dropdown_options =
            (SStr ''All Sites'', SStr ''ALL'') # map (\<lambda>site. (site, site)) (unique (map (site_of df) (rows df))),
          dropdown_value = SStr ''ALL'',
          slider_min = 0, slider_max = 10000, slider_step = 1000,
          slider_marks = map (\<lambda>i. (i, str_int i)) (py_range 0 10001 1000),
          slider_value =
            [if fin_values (map (payload_of df) (rows df)) = [] then SNum (Fin 0)
             else SNum (Fin (Min (set (fin_values (map (payload_of df) (rows df)))))),
             if fin_values (map (payload_of df) (rows df)) = [] then SNum (Fin 10000)
             else SNum (Fin (Max (set (fin_values (map (payload_of df) (rows df))))))]\<rparr>, h)"
  using assms
  by (simp add: app_layout_def prog_defs getitem_col_def is_dataset_def numeric_payload_def
      series_max_value series_min_value col_values_def payload_of_def[abs_def] site_of_def[abs_def])


subsection \<open>What a program leaves in the store\<close>

lemma keeps_ret: "Q x \<Longrightarrow> keeps n (ret x) Q"
  by (simp add: keeps_def ret_def)

lemma keeps_raise: "keeps n (raise e) Q"
  by (simp add: keeps_def raise_def)

lemma keeps_lift: "keeps n (lift r) (\<lambda>_. True)"
  by (simp add: keeps_def lift_def split: sum.splits)

lemma keeps_bind:
  assumes "keeps n m Q" and "\<And>x. Q x \<Longrightarrow> keeps n (f x) R"
  shows "keeps n (bind m f) R"
  unfolding keeps_def
proof (intro allI impI)
  fix h :: heap assume n: "n \<le> length h"
  obtain r h1 where m: "m h = (r, h1)" by (cases "m h")
  with assms(1) n have 1: "n \<le> length h1" "take n h1 = take n h"
    and q: "case r of Inl e \<Rightarrow> True | Inr x \<Rightarrow> Q x"
    by (auto simp: keeps_def)
  show "case bind m f h of (r, h') \<Rightarrow>
           n \<le> length h' \<and> take n h' = take n h \<and> (case r of Inl e \<Rightarrow> True | Inr x \<Rightarrow> R x)"
  proof (cases r)
    case (Inl e)
    with m 1 show ?thesis by (simp add: bind_def)
  next
    case (Inr x)
    with q have "Q x" by simp
    from assms(2)[OF this] 1(1) have "case f x h1 of (r, h') \<Rightarrow>
           n \<le> length h' \<and> take n h' = take n h1 \<and> (case r of Inl e \<Rightarrow> True | Inr x \<Rightarrow> R x)"
      by (simp add: keeps_def)
    with m Inr 1 show ?thesis by (auto simp: bind_def)
  qed
qed

lemma keeps_deref: "keeps n (deref r) (\<lambda>_. True)"
  by (simp add: keeps_def deref_def)

lemma keeps_alloc: "keeps n (alloc df) (\<lambda>r. n \<le> r)"
  by (simp add: keeps_def alloc_def)

lemma keeps_getitem_col: "keeps n (getitem_col r c) (\<lambda>_. True)"
  unfolding getitem_col_def
  by (rule keeps_bind[OF keeps_deref]) (simp add: keeps_ret keeps_raise)

lemma keeps_getitem_mask: "keeps n (getitem_mask r k) (\<lambda>r'. n \<le> r')"
  unfolding getitem_mask_def
  by (rule keeps_bind[OF keeps_deref]) (simp add: keeps_alloc keeps_raise)

lemma keeps_copy: "keeps n (copy r) (\<lambda>r'. n \<le> r')"
  unfolding copy_def
  by (rule keeps_bind[OF keeps_deref]) (rule keeps_alloc)

lemma keeps_reset_index: "keeps n (reset_index nm cs) (\<lambda>r. n \<le> r)"
  unfolding reset_index_def by (rule keeps_alloc)

lemma keeps_set_columns: "n \<le> r \<Longrightarrow> keeps n (set_columns r ls) (\<lambda>_. True)"
  by (simp add: keeps_def set_columns_def bind_def deref_def raise_def)

lemma keeps_px_pie: "keeps n (px_pie r v nm t) (\<lambda>_. True)"
  unfolding px_pie_def
  by (rule keeps_bind[OF keeps_deref]) (simp add: keeps_ret keeps_raise split: option.splits)

lemma keeps_px_scatter: "keeps n (px_scatter a t) (\<lambda>_. True)"
proof (cases a)
  case None
  then show ?thesis by (simp add: keeps_ret)
next
  case (Some p)
  obtain r x y c where "p = (r, x, y, c)" by (cases p)
  with Some show ?thesis
    by (simp add: keeps_bind[OF keeps_deref] keeps_ret keeps_raise)
qed

lemma keeps_weaken: "keeps n m Q \<Longrightarrow> keeps n m (\<lambda>_. True)"
  by (auto simp: keeps_def split: prod.splits sum.splits)

lemma keeps_pie: "keeps n (get_pie_chart g s) (\<lambda>_. True)"
  unfolding get_pie_chart_def Let_def
  by (auto intro!: keeps_bind[OF keeps_getitem_col] keeps_bind[OF keeps_getitem_mask]
      keeps_bind[OF keeps_reset_index] keeps_bind[OF keeps_set_columns] keeps_px_pie)

lemma keeps_interval:
  "keeps n (case as_number low of
              None \<Rightarrow> copy g
            | Some lo \<Rightarrow>
                (case as_number high of
                   None \<Rightarrow> copy g
                 | Some hi \<Rightarrow>
                     bind (getitem_col g payload_col) (\<lambda>p1.
                     bind (lift (series_ge p1 (float_arg low) lo)) (\<lambda>m1.
                     bind (getitem_col g payload_col) (\<lambda>p2.
                     bind (lift (series_le p2 (float_arg high) hi)) (\<lambda>m2.
                     getitem_mask g (mask_and m1 m2))))))) (\<lambda>r. n \<le> r)"
  by (auto split: option.splits
      intro!: keeps_copy keeps_bind[OF keeps_getitem_col] keeps_bind[OF keeps_lift] keeps_getitem_mask)

lemma keeps_if:
  "(c \<Longrightarrow> keeps n a Q) \<Longrightarrow> (\<not> c \<Longrightarrow> keeps n b Q) \<Longrightarrow> keeps n (if c then a else b) Q"
  by simp

lemma keeps_scatter: "keeps n (get_scatter_chart g s pr) (\<lambda>_. True)"
  unfolding get_scatter_chart_def
  apply (rule keeps_bind[OF keeps_lift])
  apply (simp only: split_paired_all prod.case)
  apply (rule keeps_bind[OF keeps_deref])
  apply (rule keeps_if)
   apply (rule keeps_px_scatter)
  apply (rule keeps_bind[OF keeps_interval])
  apply (rule keeps_if)
   apply (rule keeps_px_scatter)
  apply (rule keeps_bind[OF keeps_getitem_col])
  apply (rule keeps_bind[OF keeps_getitem_mask])
  apply (rule keeps_px_scatter)
  done

lemma keeps_run:
  assumes "keeps (length h) m Q"
  shows "take (length h) (snd (m h)) = h"
  using assms[unfolded keeps_def, rule_format, of h] by (auto split: prod.splits)


subsection \<open>The example dataset\<close>

lemma example_is_dataset: "is_dataset example_df"
  by (simp add: is_dataset_def example_df_def payload_col_def)

lemma example_successes:
  "successes example_df =
     [[SNum (Fin 500), SStr ''A'', SNum (Fin 1), SStr ''B1''],
      [SNum (Fin 9000), SStr ''B'', SNum (Fin 1), SStr ''B1'']]"
  by (simp add: successes_def example_df_def class_of_def cell_def)

lemma example_binary: "binary_class example_df"
  by (simp add: binary_class_def example_df_def class_of_def cell_def)

lemma example_site_A: "length (site_rows example_df (SStr ''A'')) = 2"
  by (simp add: site_rows_def example_df_def site_of_def cell_def cell_eq_def)

lemma example_numeric: "numeric_payload example_df"
  by (simp add: numeric_payload_def example_df_def col_values_def cell_def payload_col_def)

lemma example_rows:
  "rows example_df = [[SNum (Fin 500), SStr ''A'', SNum (Fin 1), SStr ''B1''],
              [SNum (Fin 500), SStr ''A'', SNum (Fin 0), SStr ''B2''],
              [SNum (Fin 9000), SStr ''B'', SNum (Fin 1), SStr ''B1'']]"
  by (simp add: example_df_def)

lemma example_payloads:
  "map (payload_of example_df) (rows example_df) = [SNum (Fin 500), SNum (Fin 500), SNum (Fin 9000)]"
  by (simp add: example_df_def payload_of_def cell_def payload_col_def)

lemma is_whole_numeral [simp]: "is_whole (numeral k)" "is_whole 0" "is_whole 1"
  by (simp_all add: is_whole_def)

lemma float_exact_500: "float_exact 500"
  by (rule float_exact_small) simp_all

lemma float_exact_9000: "float_exact 9000"
  by (rule float_exact_small) simp_all

lemma example_exact: "exact_payloads example_df"
  by (simp add: exact_payloads_def example_df_def col_values_def cell_def payload_col_def
      float_exact_500 float_exact_9000)

lemma big_is_dataset: "is_dataset big_df"
  by (simp add: is_dataset_def big_df_def payload_col_def)


section \<open>The pie chart of all sites\<close>

text \<open>
  C1. For every dataset bound to \<^verbatim>\<open>spacex_df\<close>, the pie callback called with the site
  \<^verbatim>\<open>ALL\<close> returns a pie chart titled "Total Successful Launches by Site" whose slices
  are the launch sites of the rows of outcome class 1, one slice per site in the order of
  first appearance; the value of a slice is the number of successful rows of its site, and
  the values add up to the number of rows of class 1.
\<close>

theorem pie_all_sites:
  assumes "g < length h" and "h ! g = df" and "is_dataset df"
  shows "\<exists>fig. fst (get_pie_chart g (SStr ''ALL'') h) = Inr fig \<and>
           pie_title fig = (''Total Successful Launches by Site'', None) \<and>
           map fst (slices fig) = unique (map (site_of df) (successes df)) \<and>
           distinct (map fst (slices fig)) \<and>
           (\<forall>(s, v) \<in> set (slices fig).
              v = of_nat (length (filter (\<lambda>r. site_of df r = s) (successes df)))) \<and>
           sum_list (map snd (slices fig)) = of_nat (length (successes df))"
proof -
  let ?fig = "\<lparr>pie_labels = map (site_of df) (successes df), pie_values = None,
           pie_title = (''Total Successful Launches by Site'', None)\<rparr>"
  have run: "fst (get_pie_chart g (SStr ''ALL'') h) = Inr ?fig"
    using assms pie_all_run[of g h] by (simp add: is_dataset_def)
  have sl: "slices ?fig = map (\<lambda>k. (k, of_nat (length (filter (\<lambda>r. site_of df r = k) (successes df)))))
               (unique (map (site_of df) (successes df)))"
    by (simp add: slices_counting count_list_map)
  have keys: "map fst (slices ?fig) = unique (map (site_of df) (successes df))"
    by (simp add: sl o_def)
  have vals: "\<forall>(s, v) \<in> set (slices ?fig).
              v = of_nat (length (filter (\<lambda>r. site_of df r = s) (successes df)))"
    by (auto simp: sl)
  have total: "sum_list (map snd (slices ?fig)) = of_nat (length (successes df))"
    using sum_count_unique_rat[of "map (site_of df) (successes df)"]
    by (simp add: slices_counting o_def)
  show ?thesis
    using run keys vals total distinct_unique[of "map (site_of df) (successes df)"]
    by (intro exI[of _ ?fig]) simp
qed

theorem pie_all_sites_witness:
  "is_dataset example_df \<and>
   (\<exists>fig. fst (get_pie_chart 0 (SStr ''ALL'') [example_df]) = Inr fig \<and>
           pie_title fig = (''Total Successful Launches by Site'', None) \<and>
           map fst (slices fig) = [SStr ''A'', SStr ''B''] \<and>
           sum_list (map snd (slices fig)) = 2)"
proof -
  have sites: "unique (map (site_of example_df) (successes example_df)) = [SStr ''A'', SStr ''B'']"
    by (simp add: example_successes site_of_def unique_def) (simp add: example_df_def cell_def)
  have total: "length (successes example_df) = 2"
    by (simp add: example_successes)
  from pie_all_sites[of 0 "[example_df]" example_df] example_is_dataset
  obtain fig where "fst (get_pie_chart 0 (SStr ''ALL'') [example_df]) = Inr fig"
    and "pie_title fig = (''Total Successful Launches by Site'', None)"
    and "map fst (slices fig) = unique (map (site_of example_df) (successes example_df))"
    and "sum_list (map snd (slices fig)) = of_nat (length (successes example_df))"
    by auto
  then show ?thesis
    using example_is_dataset sites total by auto
qed


section \<open>The pie chart of one site\<close>

text \<open>
  C2. For every dataset and every selected site other than \<^verbatim>\<open>ALL\<close>, the pie callback
  returns a chart built from the rows of that site. Its slices are labelled "Success"
  (class 1) and "Failure" (class 0) and no other way; a label is present exactly when
  some row of the site has its class, and its value is the number of those rows. The
  values add up to the number of rows of the site whose class is 0 or 1, which is the
  number of rows of the site when every outcome class of the dataset is 0 or 1. When no
  row matches the site the chart has no slice, and the callback still returns.
\<close>

theorem pie_one_site:
  assumes "g < length h" and "h ! g = df" and "is_dataset df" and "s \<noteq> SStr ''ALL''"
  shows "\<exists>fig. fst (get_pie_chart g s h) = Inr fig \<and>
      pie_title fig = (''Successful vs. Failed Launches for site '', Some s) \<and>
      fst ` set (slices fig) \<subseteq> {SStr ''Success'', SStr ''Failure''} \<and>
      distinct (map fst (slices fig)) \<and>
      (\<forall>l v. (l, v) \<in> set (slices fig) \<longleftrightarrow>
          0 < v \<and>
          (l = SStr ''Success'' \<and>
             v = of_nat (length (filter (\<lambda>r. class_of df r = SNum (Fin 1)) (site_rows df s))) \<or>
           l = SStr ''Failure'' \<and>
             v = of_nat (length (filter (\<lambda>r. class_of df r = SNum (Fin 0)) (site_rows df s))))) \<and>
      sum_list (map snd (slices fig)) =
        of_nat (length (filter (\<lambda>r. class_of df r = SNum (Fin 0) \<or> class_of df r = SNum (Fin 1))
                          (site_rows df s))) \<and>
      (binary_class df \<longrightarrow> sum_list (map snd (slices fig)) = of_nat (length (site_rows df s))) \<and>
      (site_rows df s = [] \<longrightarrow> slices fig = [])"
proof -
  let ?xs = "map (\<lambda>r. status_of (class_of df r)) (site_rows df s)"
  let ?present = "filter (\<lambda>c. \<not> isnull c) ?xs"
  let ?fig = "\<lparr>pie_labels = map fst (value_counts ?xs),
          pie_values = Some (map (\<lambda>(v, n). SNum (Fin (of_nat n))) (value_counts ?xs)),
          pie_title = (''Successful vs. Failed Launches for site '', Some s)\<rparr>"
  have run: "fst (get_pie_chart g s h) = Inr ?fig"
    using assms pie_site_run[of g h df s] by (simp add: is_dataset_def)
  have sl: "slices ?fig = map (\<lambda>(v, n). (v, of_nat n)) (value_counts ?xs)"
    by (rule slices_of_counts)
  have labels: "fst ` set (slices ?fig) \<subseteq> {SStr ''Success'', SStr ''Failure''}"
  proof
    fix l assume "l \<in> fst ` set (slices ?fig)"
    then obtain v where "(l, v) \<in> set (slices ?fig)" by auto
    then have "l \<in> set ?present" unfolding sl slices_member by simp
    then show "l \<in> {SStr ''Success'', SStr ''Failure''}"
      using present_labels[of "class_of df" "site_rows df s"] by blast
  qed
  have dist: "distinct (map fst (slices ?fig))"
    unfolding sl using value_counts_keys[of ?xs] by (simp add: o_def split_def)
  have mem: "(l, v) \<in> set (slices ?fig) \<longleftrightarrow>
          0 < v \<and>
          (l = SStr ''Success'' \<and>
             v = of_nat (length (filter (\<lambda>r. class_of df r = SNum (Fin 1)) (site_rows df s))) \<or>
           l = SStr ''Failure'' \<and>
             v = of_nat (length (filter (\<lambda>r. class_of df r = SNum (Fin 0)) (site_rows df s))))" for l v
  proof -
    have a: "(l, v) \<in> set (slices ?fig) \<longleftrightarrow> l \<in> set ?present \<and> v = of_nat (count_list ?present l)"
      unfolding sl slices_member by simp
    have b: "l \<in> set ?present \<longleftrightarrow> (l = SStr ''Success'' \<or> l = SStr ''Failure'') \<and> 0 < count_list ?present l"
      using present_labels[of "class_of df" "site_rows df s"] count_list_0_iff[of ?present l]
      by auto
    show ?thesis
      unfolding a b
      using count_success[of "class_of df" "site_rows df s"] count_failure[of "class_of df" "site_rows df s"]
      by auto
  qed
  have total: "sum_list (map snd (slices ?fig)) =
        of_nat (length (filter (\<lambda>r. class_of df r = SNum (Fin 0) \<or> class_of df r = SNum (Fin 1))
                          (site_rows df s)))"
    unfolding sl
    using value_counts_total[of ?xs] length_present[of "class_of df" "site_rows df s"]
    by (simp add: o_def split_def)
  have bin: "sum_list (map snd (slices ?fig)) = of_nat (length (site_rows df s))" if "binary_class df"
  proof -
    from that have "\<forall>r\<in>set (site_rows df s). class_of df r = SNum (Fin 0) \<or> class_of df r = SNum (Fin 1)"
      by (auto simp: binary_class_def site_rows_def list_all_iff)
    then have "filter (\<lambda>r. class_of df r = SNum (Fin 0) \<or> class_of df r = SNum (Fin 1)) (site_rows df s)
        = site_rows df s"
      by (simp add: filter_id_conv)
    with total show ?thesis by simp
  qed
  have empty: "slices ?fig = []" if "site_rows df s = []"
    unfolding sl using that by (simp add: value_counts_def unique_Nil)
  show ?thesis
    using run labels dist mem total bin empty
    by (intro exI[of _ ?fig]) simp
qed

theorem pie_one_site_witness:
  "is_dataset example_df \<and> binary_class example_df \<and> SStr ''A'' \<noteq> SStr ''ALL'' \<and>
   (\<exists>fig. fst (get_pie_chart 0 (SStr ''A'') [example_df]) = Inr fig \<and>
      fst ` set (slices fig) \<subseteq> {SStr ''Success'', SStr ''Failure''} \<and>
      sum_list (map snd (slices fig)) = 2)"
proof -
  have ne: "SStr ''A'' \<noteq> SStr ''ALL''" by simp
  from pie_one_site[of 0 "[example_df]" example_df "SStr ''A''", OF _ _ example_is_dataset ne]
  obtain fig where "fst (get_pie_chart 0 (SStr ''A'') [example_df]) = Inr fig"
    and "fst ` set (slices fig) \<subseteq> {SStr ''Success'', SStr ''Failure''}"
    and "binary_class example_df \<longrightarrow>
           sum_list (map snd (slices fig)) = of_nat (length (site_rows example_df (SStr ''A'')))"
    by auto
  then show ?thesis
    using example_is_dataset example_binary example_site_A by auto
qed


section \<open>The payload interval\<close>

text \<open>
  C3. For every dataset whose payload column holds numbers and every interval
  \<^verbatim>\<open>[low, high]\<close> of two numbers, ints or floats, such that float64 holds the payloads
  and both bounds exactly (as it does every whole number below \<^verbatim>\<open>2**53\<close> in magnitude and
  every number with a fractional part, which can only be a float: lemmas
  \<open>float_exact_small\<close> and \<open>float_exact_fraction\<close>), the scatter callback returns a chart in
  which every point has a payload
  mass \<^verbatim>\<open>p\<close> with \<^verbatim>\<open>low <= p <= high\<close>. Both bounds are inclusive: every row of the dataset
  whose payload lies in the closed interval (and whose site is the selected one, unless
  the selection is \<^verbatim>\<open>ALL\<close>) is a row of the chart.
\<close>

theorem scatter_points_in_range:
  assumes "g < length h" and "h ! g = df" and "is_dataset df" and "numeric_payload df"
    and "exact_payloads df"
    and "as_number low = Some (Fin lo)" and "as_number high = Some (Fin hi)"
    and "float_exact lo" and "float_exact hi"
  shows "\<exists>fig. fst (get_scatter_chart g s (PSeq [low, high]) h) = Inr fig \<and>
           (\<forall>(x, y, c) \<in> set (points fig). \<exists>p. x = SNum (Fin p) \<and> lo \<le> p \<and> p \<le> hi) \<and>
           (\<forall>r \<in> set (rows df).
              (\<exists>p. payload_of df r = SNum (Fin p) \<and> lo \<le> p \<and> p \<le> hi) \<and>
              (s = SStr ''ALL'' \<or> cell_eq (site_of df r) s)
              \<longrightarrow> r \<in> set (rows (sc_frame fig)))"
proof -
  let ?pr = "PSeq [low, high]"
  let ?kept = "filter (\<lambda>r. in_interval df low high (payload_of df r)) (rows df)"
  have u: "unpack2 ?pr = Inr (low, high)" by simp
  have iv: "in_interval df low high (payload_of df r) \<longleftrightarrow>
              (\<exists>p. payload_of df r = SNum (Fin p) \<and> lo \<le> p \<and> p \<le> hi)"
    if "r \<in> set (rows df)" for r
    by (rule in_interval_exact[OF assms(6,7,8,9) exact_payloads_row[OF assms(5) that]])
  show ?thesis
  proof (cases "s = SStr ''ALL''")
    case True
    have "fst (get_scatter_chart g (SStr ''ALL'') ?pr h) =
           Inr \<lparr>sc_frame = df\<lparr>rows := ?kept\<rparr>,
                sc_encoding = Some (payload_col, ''class'', ''Booster Version Category''),
                sc_title = (''Payload vs. Launch Outcome for All Sites'', None)\<rparr>"
      by (rule scatter_numeric_all[OF assms(1-4) u assms(6,7)])
    then show ?thesis
      using True iv by (auto simp: points_def payload_of_def)
  next
    case False
    have "fst (get_scatter_chart g s ?pr h) =
           Inr \<lparr>sc_frame = df\<lparr>rows := filter (\<lambda>r. cell_eq (site_of df r) s) ?kept\<rparr>,
                sc_encoding = Some (payload_col, ''class'', ''Booster Version Category''),
                sc_title = (''Payload vs. Launch Outcome for site '', Some s)\<rparr>"
      by (rule scatter_numeric_site[OF assms(1-4) u assms(6,7) False])
    then show ?thesis
      using False iv by (auto simp: points_def payload_of_def)
  qed
qed

theorem scatter_points_in_range_witness:
  "is_dataset example_df \<and> numeric_payload example_df \<and> exact_payloads example_df \<and>
   float_exact 500 \<and> float_exact 9000 \<and>
   (\<exists>fig. fst (get_scatter_chart 0 (SStr ''ALL'')
                  (PSeq [PScalar (SNum (Fin 500)), PFloat 9000]) [example_df]) = Inr fig \<and>
      (\<forall>(x, y, c) \<in> set (points fig). \<exists>p. x = SNum (Fin p) \<and> 500 \<le> p \<and> p \<le> 9000) \<and>
      set (rows example_df) \<subseteq> set (rows (sc_frame fig)))"
proof -
  have h0: "0 < length [example_df]" and h1: "[example_df] ! 0 = example_df" by simp_all
  have lo: "as_number (PScalar (SNum (Fin 500))) = Some (Fin 500)"
    and hi: "as_number (PFloat 9000) = Some (Fin 9000)" by simp_all
  from scatter_points_in_range[OF h0 h1 example_is_dataset example_numeric example_exact lo hi
      float_exact_500 float_exact_9000, of "SStr ''ALL''"]
  obtain fig where f: "fst (get_scatter_chart 0 (SStr ''ALL'')
                  (PSeq [PScalar (SNum (Fin 500)), PFloat 9000]) [example_df]) = Inr fig"
    and p: "\<forall>(x, y, c) \<in> set (points fig). \<exists>p. x = SNum (Fin p) \<and> 500 \<le> p \<and> p \<le> 9000"
    and k: "\<forall>r \<in> set (rows example_df).
              (\<exists>p. payload_of example_df r = SNum (Fin p) \<and> 500 \<le> p \<and> p \<le> 9000) \<and>
              (SStr ''ALL'' = SStr ''ALL'' \<or> cell_eq (site_of example_df r) (SStr ''ALL''))
              \<longrightarrow> r \<in> set (rows (sc_frame fig))"
    by (elim exE conjE) (rule that)
  have "\<forall>r \<in> set (rows example_df). \<exists>p. payload_of example_df r = SNum (Fin p) \<and> 500 \<le> p \<and> p \<le> 9000"
    by (simp add: example_df_def payload_of_def cell_def payload_col_def)
  with k have s: "set (rows example_df) \<subseteq> set (rows (sc_frame fig))" by auto
  have "\<exists>fig. fst (get_scatter_chart 0 (SStr ''ALL'')
                  (PSeq [PScalar (SNum (Fin 500)), PFloat 9000]) [example_df]) = Inr fig \<and>
      (\<forall>(x, y, c) \<in> set (points fig). \<exists>p. x = SNum (Fin p) \<and> 500 \<le> p \<and> p \<le> 9000) \<and>
      set (rows example_df) \<subseteq> set (rows (sc_frame fig))"
    by (rule exI[of _ fig]) (intro conjI f p s)
  then show ?thesis
    by (intro conjI example_is_dataset example_numeric example_exact float_exact_500 float_exact_9000)
qed

text \<open>
  C3 does not hold of every dataset and interval. An int64 payload of \<^verbatim>\<open>2**53 + 1\<close> is
  compared with the float bound \<^verbatim>\<open>2**53\<close> in float64, where it rounds to \<^verbatim>\<open>2**53\<close>: the point
  is plotted although its payload is above the upper bound.
\<close>

theorem scatter_points_in_range_counterexample:
  "map_sum id points
     (fst (get_scatter_chart 0 (SStr ''ALL'')
             (PSeq [PScalar (SNum (Fin 0)), PFloat 9007199254740992]) [big_df]))
     = Inr [(SNum (Fin 9007199254740993), SNum (Fin 1), SStr ''B1'')] \<and>
   \<not> (9007199254740993 \<le> (9007199254740992 :: rat))"
proof -
  have n: "numeric_payload big_df"
    by (simp add: numeric_payload_def big_df_def col_values_def cell_def payload_col_def)
  have u: "unpack2 (PSeq [PScalar (SNum (Fin 0)), PFloat 9007199254740992])
             = Inr (PScalar (SNum (Fin 0)), PFloat 9007199254740992)" by simp
  have pay: "col_values big_df payload_col = [SNum (Fin 9007199254740993)]"
    by (simp add: big_df_def col_values_def cell_def payload_col_def)
  have keep: "in_interval big_df (PScalar (SNum (Fin 0))) (PFloat 9007199254740992)
                (SNum (Fin 9007199254740993))"
    by (simp add: in_interval_def pay int_column_def cell_test_def to_float64_big to_float64_2_53)
  have r: "rows big_df = [[SNum (Fin 9007199254740993), SStr ''A'', SNum (Fin 1), SStr ''B1'']]"
    by (simp add: big_df_def)
  have pr: "payload_of big_df [SNum (Fin 9007199254740993), SStr ''A'', SNum (Fin 1), SStr ''B1'']
              = SNum (Fin 9007199254740993)"
    by (simp add: big_df_def payload_of_def cell_def payload_col_def)
  have run: "fst (get_scatter_chart 0 (SStr ''ALL'')
             (PSeq [PScalar (SNum (Fin 0)), PFloat 9007199254740992]) [big_df]) =
           Inr \<lparr>sc_frame = big_df\<lparr>rows := rows big_df\<rparr>,
                sc_encoding = Some (payload_col, ''class'', ''Booster Version Category''),
                sc_title = (''Payload vs. Launch Outcome for All Sites'', None)\<rparr>"
    using scatter_numeric_all[of 0 "[big_df]" big_df, OF _ _ big_is_dataset n u]
    by (simp add: r pr keep)
  show ?thesis
    unfolding run by (simp add: points_def big_df_def cell_def payload_col_def)
qed


section \<open>The site restriction of the scatter chart\<close>

text \<open>
  C4. For every dataset, every interval argument of two elements and every selected site
  other than \<^verbatim>\<open>ALL\<close>, the frame plotted for the site is the frame plotted for \<^verbatim>\<open>ALL\<close>
  (same interval, same dataset) restricted to the rows of that site, with the same
  encoding, so its points are among the points of the \<^verbatim>\<open>ALL\<close> chart. The \<^verbatim>\<open>ALL\<close> chart
  holds every row that passes the interval filter, whatever its site.
\<close>

theorem scatter_site_subset:
  assumes "g < length h" and "h ! g = df" and "is_dataset df" and "numeric_payload df"
    and "unpack2 pr = Inr (lo, hi)" and "s \<noteq> SStr ''ALL''"
  shows "\<exists>fs fa. fst (get_scatter_chart g s pr h) = Inr fs \<and>
           fst (get_scatter_chart g (SStr ''ALL'') pr h) = Inr fa \<and>
           sc_frame fs = (sc_frame fa)\<lparr>rows :=
              filter (\<lambda>r. cell_eq (site_of (sc_frame fa) r) s) (rows (sc_frame fa))\<rparr> \<and>
           sc_encoding fs = sc_encoding fa \<and>
           set (points fs) \<subseteq> set (points fa) \<and>
           rows (sc_frame fa) = filter (\<lambda>r. in_interval df lo hi (payload_of df r)) (rows df)"
proof (cases "as_number lo = None \<or> as_number hi = None")
  case True
  have all: "filter (\<lambda>r. in_interval df lo hi (payload_of df r)) (rows df) = rows df"
    using in_interval_fallback[OF True] by simp
  show ?thesis
    using scatter_fallback_all[OF assms(1,2,3,5) True]
      scatter_fallback_site[OF assms(1,2,3,5) True assms(6)]
    by (auto simp: all site_rows_def site_of_def points_def)
next
  case False
  then obtain a b where ab: "as_number lo = Some a" "as_number hi = Some b" by auto
  show ?thesis
    using scatter_numeric_all[OF assms(1-5) ab]
      scatter_numeric_site[OF assms(1-5) ab assms(6)]
    by (auto simp: site_of_def points_def)
qed

theorem scatter_site_subset_witness:
  "\<exists>fs fa. fst (get_scatter_chart 0 (SStr ''A'')
                  (PSeq [PScalar (SNum (Fin 0)), PScalar (SNum (Fin 10000))]) [example_df]) = Inr fs \<and>
           fst (get_scatter_chart 0 (SStr ''ALL'')
                  (PSeq [PScalar (SNum (Fin 0)), PScalar (SNum (Fin 10000))]) [example_df]) = Inr fa \<and>
           sc_frame fs = (sc_frame fa)\<lparr>rows :=
              filter (\<lambda>r. cell_eq (site_of (sc_frame fa) r) (SStr ''A'')) (rows (sc_frame fa))\<rparr> \<and>
           set (points fs) \<subseteq> set (points fa)"
proof -
  have "unpack2 (PSeq [PScalar (SNum (Fin 0)), PScalar (SNum (Fin 10000))])
          = Inr (PScalar (SNum (Fin 0)), PScalar (SNum (Fin 10000)))" by simp
  from scatter_site_subset[of 0 "[example_df]" example_df _ _ _ "SStr ''A''", OF _ _ example_is_dataset example_numeric this]
  show ?thesis by auto
qed


section \<open>A malformed interval\<close>

text \<open>
  C6. When the interval argument has two elements and one of them is not an instance of
  \<^verbatim>\<open>int\<close> or \<^verbatim>\<open>float\<close> (it is \<^verbatim>\<open>None\<close>, a string or a list), the scatter callback does
  not fail: it plots the whole dataset, unfiltered by payload, restricted to the selected
  site unless the selection is \<^verbatim>\<open>ALL\<close>.
\<close>

theorem scatter_malformed_interval:
  assumes "g < length h" and "h ! g = df" and "is_dataset df"
    and "unpack2 pr = Inr (lo, hi)" and "\<not> (valid_number lo \<and> valid_number hi)"
  shows "\<exists>fig. fst (get_scatter_chart g s pr h) = Inr fig \<and>
           columns (sc_frame fig) = columns df \<and>
           rows (sc_frame fig) = (if s = SStr ''ALL'' then rows df else site_rows df s)"
proof -
  from assms(5) have n: "as_number lo = None \<or> as_number hi = None"
    by (auto simp: valid_number_def)
  show ?thesis
  proof (cases "s = SStr ''ALL''")
    case True
    then show ?thesis using scatter_fallback_all[OF assms(1-4) n] by simp
  next
    case False
    then show ?thesis using scatter_fallback_site[OF assms(1-4) n False] by simp
  qed
qed

theorem scatter_malformed_interval_witness:
  "\<not> valid_number (PScalar SNone) \<and>
   (\<exists>fig. fst (get_scatter_chart 0 (SStr ''ALL'')
                  (PSeq [PScalar SNone, PScalar (SNum (Fin 1000))]) [example_df]) = Inr fig \<and>
      rows (sc_frame fig) = rows example_df)"
proof -
  have u: "unpack2 (PSeq [PScalar SNone, PScalar (SNum (Fin 1000))])
          = Inr (PScalar SNone, PScalar (SNum (Fin 1000)))" by simp
  have n: "\<not> (valid_number (PScalar SNone) \<and> valid_number (PScalar (SNum (Fin 1000))))"
    by (simp add: valid_number_def)
  from scatter_malformed_interval[of 0 "[example_df]" example_df _ _ _ "SStr ''ALL''", OF _ _ example_is_dataset u n]
  show ?thesis by (auto simp: valid_number_def)
qed

text \<open>
  C6 does not hold of every element that is not a valid number. The float \<^verbatim>\<open>nan\<close> is an
  instance of \<^verbatim>\<open>float\<close> and passes the test of the callback, which then filters with it:
  no payload compares with \<^verbatim>\<open>nan\<close>, and the chart of the example dataset is empty
  instead of holding all its rows.
\<close>

theorem scatter_malformed_interval_counterexample:
  "map_sum id (rows \<circ> sc_frame)
     (fst (get_scatter_chart 0 (SStr ''ALL'')
             (PSeq [PScalar (SNum NaN), PScalar (SNum (Fin 9000))]) [example_df])) = Inr [] \<and>
   as_number (PScalar (SNum NaN)) = Some NaN \<and>
   rows example_df \<noteq> []"
proof -
  have u: "unpack2 (PSeq [PScalar (SNum NaN), PScalar (SNum (Fin 9000))])
             = Inr (PScalar (SNum NaN), PScalar (SNum (Fin 9000)))" by simp
  have none: "\<not> in_interval example_df (PScalar (SNum NaN)) (PScalar (SNum (Fin 9000))) c" for c
  proof (cases c)
    case (SNum n)
    then show ?thesis by (cases n) (simp_all add: in_interval_def cell_test_def)
  qed (simp_all add: in_interval_def cell_test_def)
  have run: "fst (get_scatter_chart 0 (SStr ''ALL'')
             (PSeq [PScalar (SNum NaN), PScalar (SNum (Fin 9000))]) [example_df]) =
           Inr \<lparr>sc_frame = example_df\<lparr>rows := []\<rparr>,
                sc_encoding = Some (payload_col, ''class'', ''Booster Version Category''),
                sc_title = (''Payload vs. Launch Outcome for All Sites'', None)\<rparr>"
    using scatter_numeric_all[of 0 "[example_df]" example_df, OF _ _ example_is_dataset example_numeric u]
    by (simp add: none)
  show ?thesis
    unfolding run by (simp add: example_rows)
qed


section \<open>A dataset without the payload column\<close>

text \<open>
  C7. When the frame bound to \<^verbatim>\<open>spacex_df\<close> has no payload-mass column, the scatter
  callback returns, for every selected site and every interval argument of two elements,
  an empty chart titled "Payload Mass (kg) column missing". No filtered frame is
  created: the store is left as it was.
\<close>

theorem scatter_missing_column:
  assumes "g < length h" and "payload_col \<notin> set (columns (h ! g))"
    and "unpack2 pr = Inr (lo, hi)"
  shows "\<exists>fig. get_scatter_chart g s pr h = (Inr fig, h) \<and>
           sc_title fig = (''Payload Mass (kg) column missing'', None) \<and>
           rows (sc_frame fig) = [] \<and> points fig = []"
  using scatter_guard[OF assms] by (simp add: empty_scatter_def points_def)

theorem scatter_missing_column_witness:
  "payload_col \<notin> set (columns no_payload_df) \<and>
   (\<exists>fig. get_scatter_chart 0 (SStr ''A'')
             (PSeq [PScalar (SNum (Fin 0)), PScalar (SNum (Fin 1000))]) [no_payload_df]
             = (Inr fig, [no_payload_df]) \<and>
      sc_title fig = (''Payload Mass (kg) column missing'', None) \<and> points fig = [])"
proof -
  have c: "payload_col \<notin> set (columns ([no_payload_df] ! 0))"
    by (simp add: no_payload_df_def payload_col_def)
  have u: "unpack2 (PSeq [PScalar (SNum (Fin 0)), PScalar (SNum (Fin 1000))])
          = Inr (PScalar (SNum (Fin 0)), PScalar (SNum (Fin 1000)))" by simp
  from scatter_missing_column[of 0 "[no_payload_df]", OF _ c u, of "SStr ''A''"] c
  show ?thesis by auto
qed


section \<open>Unpacking the interval comes first\<close>

text \<open>
  C10. The scatter callback takes its interval argument apart before any guard. For a
  dataset with a numeric payload column it returns a chart for every argument that is a
  sequence of two elements; whenever it returns a chart the argument was such a sequence
  (a list of two values or a string of two characters), so the fallback for elements
  that are no numbers is reached for those arguments only; the argument \<^verbatim>\<open>None\<close> raises
  \<^verbatim>\<open>TypeError\<close> in every store.
\<close>

theorem scatter_unpacks_first:
  "(\<forall>a b. unpack2 pr = Inr (a, b) \<and> g < length h \<and> is_dataset (h ! g) \<and> numeric_payload (h ! g)
       \<longrightarrow> (\<exists>fig. fst (get_scatter_chart g s pr h) = Inr fig)) \<and>
   ((\<exists>fig. fst (get_scatter_chart g s pr h) = Inr fig) \<longrightarrow> (\<exists>a b. unpack2 pr = Inr (a, b))) \<and>
   (unpack2 pr = Inr (a, b) \<longleftrightarrow>
      pr = PSeq [a, b] \<or> (\<exists>c d. pr = PScalar (SStr [c, d]) \<and> a = PScalar (SStr [c]) \<and> b = PScalar (SStr [d]))) \<and>
   get_scatter_chart g s (PScalar SNone) h = (Inl TypeError, h)"
proof (intro conjI allI impI)
  fix a b assume "unpack2 pr = Inr (a, b) \<and> g < length h \<and> is_dataset (h ! g) \<and> numeric_payload (h ! g)"
  then show "\<exists>fig. fst (get_scatter_chart g s pr h) = Inr fig"
    using scatter_returns[of g h pr a b s] by simp
next
  assume "\<exists>fig. fst (get_scatter_chart g s pr h) = Inr fig"
  then show "\<exists>a b. unpack2 pr = Inr (a, b)" using scatter_needs_pair by blast
next
  show "unpack2 pr = Inr (a, b) \<longleftrightarrow>
      pr = PSeq [a, b] \<or> (\<exists>c d. pr = PScalar (SStr [c, d]) \<and> a = PScalar (SStr [c]) \<and> b = PScalar (SStr [d]))"
    by (induction pr rule: unpack2.induct) auto
next
  show "get_scatter_chart g s (PScalar SNone) h = (Inl TypeError, h)"
    by (simp add: get_scatter_chart_def prog_defs)
qed

theorem scatter_unpacks_first_witness:
  "(\<exists>fig. fst (get_scatter_chart 0 (SStr ''ALL'') (PScalar (SStr ''ab'')) [example_df]) = Inr fig) \<and>
   unpack2 (PScalar (SStr ''ab'')) = Inr (PScalar (SStr ''a''), PScalar (SStr ''b''))"
proof -
  have u: "unpack2 (PScalar (SStr ''ab'')) = Inr (PScalar (SStr ''a''), PScalar (SStr ''b''))"
    by simp
  from scatter_unpacks_first[of "PScalar (SStr ''ab'')" 0 "[example_df]" "SStr ''ALL''"]
  have "\<forall>a b. unpack2 (PScalar (SStr ''ab'')) = Inr (a, b) \<and> 0 < length [example_df] \<and>
          is_dataset ([example_df] ! 0) \<and> numeric_payload ([example_df] ! 0)
       \<longrightarrow> (\<exists>fig. fst (get_scatter_chart 0 (SStr ''ALL'') (PScalar (SStr ''ab'')) [example_df]) = Inr fig)"
    by blast
  with u example_is_dataset example_numeric show ?thesis by simp
qed


section \<open>Loading without the file\<close>

text \<open>
  C5. When \<^verbatim>\<open>read_csv\<close> raises \<^verbatim>\<open>FileNotFoundError\<close> the loader does not raise: it prints
  one diagnostic line and binds a frame of exactly the four columns Payload Mass (kg),
  Launch Site, class and Booster Version Category with a single row, of payload 0, site
  "Default", class 0 and booster category "Default".
\<close>

theorem load_missing_file:
  "load_dataset (Inl FileNotFoundError) = ([not_found_message], Inr placeholder_df) \<and>
   columns placeholder_df =
     [''Payload Mass (kg)'', ''Launch Site'', ''class'', ''Booster Version Category''] \<and>
   (\<exists>r. rows placeholder_df = [r] \<and>
        payload_of placeholder_df r = SNum (Fin 0) \<and>
        site_of placeholder_df r = SStr ''Default'' \<and>
        class_of placeholder_df r = SNum (Fin 0) \<and>
        cell (columns placeholder_df) r ''Booster Version Category'' = SStr ''Default'') \<and>
   is_dataset placeholder_df"
  by (simp add: placeholder_df_def payload_of_def site_of_def class_of_def cell_def
      payload_col_def is_dataset_def)


section \<open>The controls of the layout\<close>

text \<open>
  C8. For a dataset with a numeric payload column, the layout built at startup offers
  \<^verbatim>\<open>ALL\<close> followed by the distinct launch sites in the order of their first appearance,
  with \<^verbatim>\<open>ALL\<close> selected. The payload slider runs from 0 to 10000 in steps of 1000 with a
  mark at every 1000, whatever the dataset; its initial interval is the least and the
  greatest payload of the dataset, and \<^verbatim>\<open>[0, 10000]\<close> when no row has a payload. Building
  the layout leaves the store as it was.
\<close>

theorem layout_controls:
  assumes "g < length h" and "h ! g = df" and "is_dataset df" and "numeric_payload df"
  shows "\<exists>lay. app_layout g h = (Inr lay, h) \<and>
     map snd (dropdown_options lay) = SStr ''ALL'' # unique (map (site_of df) (rows df)) \<and>
     distinct (unique (map (site_of df) (rows df))) \<and>
     set (unique (map (site_of df) (rows df))) = site_of df ` set (rows df) \<and>
     (\<forall>ys b zs. unique (map (site_of df) (rows df)) = ys @ b # zs \<longrightarrow>
        (\<exists>pre post. map (site_of df) (rows df) = pre @ b # post \<and> b \<notin> set pre \<and> set pre = set ys)) \<and>
     dropdown_value lay = SStr ''ALL'' \<and>
     slider_min lay = 0 \<and> slider_max lay = 10000 \<and> slider_step lay = 1000 \<and>
     slider_marks lay =
       [(0, ''0''), (1000, ''1000''), (2000, ''2000''), (3000, ''3000''), (4000, ''4000''),
        (5000, ''5000''), (6000, ''6000''), (7000, ''7000''), (8000, ''8000''),
        (9000, ''9000''), (10000, ''10000'')] \<and>
     slider_value lay =
       (if fin_values (map (payload_of df) (rows df)) = []
        then [SNum (Fin 0), SNum (Fin 10000)]
        else [SNum (Fin (Min (set (fin_values (map (payload_of df) (rows df)))))),
              SNum (Fin (Max (set (fin_values (map (payload_of df) (rows df))))))]) \<and>
     set (fin_values (map (payload_of df) (rows df))) =
       {v. \<exists>r \<in> set (rows df). payload_of df r = SNum (Fin v)}"
proof -
  let ?sites = "map (site_of df) (rows df)"
  let ?ps = "fin_values (map (payload_of df) (rows df))"
  let ?lay = "\<lparr>dropdown_options =
            (SStr ''All Sites'', SStr ''ALL'') # map (\<lambda>site. (site, site)) (unique ?sites),
          dropdown_value = SStr ''ALL'',
          slider_min = 0, slider_max = 10000, slider_step = 1000,
          slider_marks = map (\<lambda>i. (i, str_int i)) (py_range 0 10001 1000),
          slider_value =
            [if ?ps = [] then SNum (Fin 0) else SNum (Fin (Min (set ?ps))),
             if ?ps = [] then SNum (Fin 10000) else SNum (Fin (Max (set ?ps)))]\<rparr>"
  have run: "app_layout g h = (Inr ?lay, h)"
    by (rule layout_run[OF assms])
  have opts: "map snd (dropdown_options ?lay) = SStr ''ALL'' # unique ?sites"
    by (simp add: o_def)
  have dist: "distinct (unique ?sites)"
    by (rule distinct_unique)
  have sites: "set (unique ?sites) = site_of df ` set (rows df)"
    by (simp add: set_unique)
  have order: "\<forall>ys b zs. unique ?sites = ys @ b # zs \<longrightarrow>
        (\<exists>pre post. ?sites = pre @ b # post \<and> b \<notin> set pre \<and> set pre = set ys)"
    by (intro allI impI) (erule unique_first_seen)
  have marks: "slider_marks ?lay =
       [(0, ''0''), (1000, ''1000''), (2000, ''2000''), (3000, ''3000''), (4000, ''4000''),
        (5000, ''5000''), (6000, ''6000''), (7000, ''7000''), (8000, ''8000''),
        (9000, ''9000''), (10000, ''10000'')]"
    by (simp only: layout.simps marks_value)
  have val: "slider_value ?lay =
       (if ?ps = [] then [SNum (Fin 0), SNum (Fin 10000)]
        else [SNum (Fin (Min (set ?ps))), SNum (Fin (Max (set ?ps)))])"
    by simp
  have vals: "set ?ps = {v. \<exists>r \<in> set (rows df). payload_of df r = SNum (Fin v)}"
    unfolding fin_values_set by (simp add: image_iff) metis
  have rest: "dropdown_value ?lay = SStr ''ALL'' \<and>
     slider_min ?lay = 0 \<and> slider_max ?lay = 10000 \<and> slider_step ?lay = 1000"
    by simp
  show ?thesis
    apply (rule exI[of _ ?lay])
    apply (intro conjI)
    apply (rule run)
    apply (rule opts)
    apply (rule dist)
    apply (rule sites)
    apply (rule order)
    apply (rule rest[THEN conjunct1])
    apply (rule rest[THEN conjunct2, THEN conjunct1])
    apply (rule rest[THEN conjunct2, THEN conjunct2, THEN conjunct1])
    apply (rule rest[THEN conjunct2, THEN conjunct2, THEN conjunct2])
    apply (rule marks)
    apply (rule val)
    apply (rule vals)
    done
qed

theorem layout_controls_witness:
  "is_dataset example_df \<and> numeric_payload example_df \<and>
   (\<exists>lay. app_layout 0 [example_df] = (Inr lay, [example_df]) \<and>
      map snd (dropdown_options lay) = [SStr ''ALL'', SStr ''A'', SStr ''B''] \<and>
      dropdown_value lay = SStr ''ALL'' \<and>
      slider_min lay = 0 \<and> slider_max lay = 10000 \<and> slider_step lay = 1000 \<and>
      slider_value lay = [SNum (Fin 500), SNum (Fin 9000)])"
proof -
  have sites: "unique (map (site_of example_df) (rows example_df)) = [SStr ''A'', SStr ''B'']"
    by (simp add: example_rows site_of_def unique_def) (simp add: example_df_def cell_def)
  have ps: "fin_values (map (payload_of example_df) (rows example_df)) = [500, 500, 9000]"
    by (simp add: example_payloads)
  have h0: "0 < length [example_df]" and h1: "[example_df] ! 0 = example_df" by simp_all
  from layout_controls[OF h0 h1 example_is_dataset example_numeric]
  obtain lay where a: "app_layout 0 [example_df] = (Inr lay, [example_df])"
    and b: "map snd (dropdown_options lay) = SStr ''ALL'' # unique (map (site_of example_df) (rows example_df))"
    and c: "dropdown_value lay = SStr ''ALL''"
      "slider_min lay = 0" "slider_max lay = 10000" "slider_step lay = 1000"
    and d: "slider_value lay =
       (if fin_values (map (payload_of example_df) (rows example_df)) = []
        then [SNum (Fin 0), SNum (Fin 10000)]
        else [SNum (Fin (Min (set (fin_values (map (payload_of example_df) (rows example_df)))))),
              SNum (Fin (Max (set (fin_values (map (payload_of example_df) (rows example_df))))))])"
    by (elim exE conjE) (rule that)
  have mn: "Min (set [500, 500, 9000 :: rat]) = 500"
    unfolding Min.set_eq_fold by simp
  have mx: "Max (set [500, 500, 9000 :: rat]) = 9000"
    unfolding Max.set_eq_fold by simp
  have d': "slider_value lay = [SNum (Fin 500), SNum (Fin 9000)]"
    unfolding d ps mn mx by simp
  have b': "map snd (dropdown_options lay) = [SStr ''ALL'', SStr ''A'', SStr ''B'']"
    unfolding b sites by simp
  have "app_layout 0 [example_df] = (Inr lay, [example_df]) \<and>
      map snd (dropdown_options lay) = [SStr ''ALL'', SStr ''A'', SStr ''B''] \<and>
      dropdown_value lay = SStr ''ALL'' \<and>
      slider_min lay = 0 \<and> slider_max lay = 10000 \<and> slider_step lay = 1000 \<and>
      slider_value lay = [SNum (Fin 500), SNum (Fin 9000)]"
    by (intro conjI a b' c d')
  then have "\<exists>lay. app_layout 0 [example_df] = (Inr lay, [example_df]) \<and>
      map snd (dropdown_options lay) = [SStr ''ALL'', SStr ''A'', SStr ''B''] \<and>
      dropdown_value lay = SStr ''ALL'' \<and>
      slider_min lay = 0 \<and> slider_max lay = 10000 \<and> slider_step lay = 1000 \<and>
      slider_value lay = [SNum (Fin 500), SNum (Fin 9000)]"
    by (rule exI)
  with example_is_dataset example_numeric show ?thesis by (intro conjI)
qed


section \<open>The dataset is not mutated\<close>

text \<open>
  C9. For every store, selected site and interval argument, also when the callback
  raises, the pie callback and the scatter callback leave every object that existed
  before the call as it was: they only add frames (the filtered copies and the table of
  counts, whose labels are the one thing assigned in place). In particular the frame
  bound to \<^verbatim>\<open>spacex_df\<close> has the same columns, rows and values after the call.
\<close>

theorem callbacks_leave_dataset:
  "take (length h) (snd (get_pie_chart g s h)) = h \<and>
   take (length h) (snd (get_scatter_chart g s' pr h)) = h \<and>
   (g < length h \<longrightarrow>
      snd (get_pie_chart g s h) ! g = h ! g \<and>
      snd (get_scatter_chart g s' pr h) ! g = h ! g)"
proof -
  have p: "take (length h) (snd (get_pie_chart g s h)) = h"
    by (rule keeps_run[OF keeps_pie])
  have q: "take (length h) (snd (get_scatter_chart g s' pr h)) = h"
    by (rule keeps_run[OF keeps_scatter])
  have "snd (get_pie_chart g s h) ! g = h ! g" if "g < length h"
    using that nth_take[of g "length h" "snd (get_pie_chart g s h)"] p by simp
  moreover have "snd (get_scatter_chart g s' pr h) ! g = h ! g" if "g < length h"
    using that nth_take[of g "length h" "snd (get_scatter_chart g s' pr h)"] q by simp
  ultimately show ?thesis using p q by simp
qed

theorem callbacks_leave_dataset_witness:
  "snd (get_pie_chart 0 (SStr ''A'') [example_df]) ! 0 = example_df \<and>
   snd (get_scatter_chart 0 (SStr ''A'')
          (PSeq [PScalar (SNum (Fin 0)), PScalar (SNum (Fin 1000))]) [example_df]) ! 0 = example_df"
  using callbacks_leave_dataset[of "[example_df]" 0 "SStr ''A''" "SStr ''A''"
      "PSeq [PScalar (SNum (Fin 0)), PScalar (SNum (Fin 1000))]"]
  by simp

end
